theory Spec2Isabelle
  imports Complex_Main
begin

section \<open>SBS2 data interface: the inverse-model pipeline of \<open>brede/data/sbs2.py\<close>\<close>

text \<open>
  The development embeds the class \<open>SBS2Data\<close>: the static electrode catalogue, the
  forward model read from the data directory, the two spatial-coherence matrices and
  the inverse model computed from them.

  Exceptions are values of the type \<open>error\<close>; a function that can raise returns
  \<open>error + 'a\<close>, with \<open>Inl\<close> for the exception.
\<close>

subsection \<open>Exceptions\<close>

datatype error =
    ValueError string
  | ZeroDivisionError
  | IOError string

definition bindE :: "error + 'a \<Rightarrow> ('a \<Rightarrow> error + 'b) \<Rightarrow> error + 'b" where
  \<comment> \<open>Sequencing of two statements: an exception raised by the first one propagates.\<close>
  "bindE m f = (case m of Inl e \<Rightarrow> Inl e | Inr x \<Rightarrow> f x)"

subsection \<open>Machine numbers\<close>

text \<open>
  The entries of the tables are machine numbers, float64 or int64 as \<open>read_csv\<close> finds
  them in a file, and the two hyperparameters are Python floats. Their arithmetic is that
  of numpy and of Python: it rounds, a float64 result too large becomes an infinity, an
  infinity times zero is not a number, and an int64 result too large wraps around. None
  of this is code of the repository. The type \<open>'a\<close> stands for the machine numbers,
  infinities and not-a-number among them, and the record \<open>'a numbers\<close> for the
  operations on them that the source uses; every definition below takes the record as
  its first argument and every theorem holds for every such record, the arithmetic of
  the machine among them. A table is taken to hold numbers of one dtype.
\<close>

record 'a numbers =
  mult :: "'a \<Rightarrow> 'a \<Rightarrow> 'a"  \<comment> \<open>\<open>x * y\<close>\<close>
  addition :: "'a \<Rightarrow> 'a \<Rightarrow> 'a"  \<comment> \<open>\<open>x + y\<close>\<close>
  inner :: "'a list \<Rightarrow> 'a list \<Rightarrow> 'a"
    \<comment> \<open>the sum of products of a row and a column, as \<open>dot\<close> accumulates it\<close>
  truediv :: "'a \<Rightarrow> 'a \<Rightarrow> 'a"  \<comment> \<open>\<open>x / y\<close> for a divisor that is not zero\<close>
  is_zero :: "'a \<Rightarrow> bool"  \<comment> \<open>\<open>x == 0\<close>\<close>
  py_int :: "int \<Rightarrow> 'a"  \<comment> \<open>the number of a Python integer literal\<close>
  float_zero :: 'a  \<comment> \<open>\<open>0.0\<close>\<close>
  float_one :: 'a  \<comment> \<open>\<open>1.0\<close>\<close>

definition py_div :: "'a numbers \<Rightarrow> 'a \<Rightarrow> 'a \<Rightarrow> error + 'a" where
  \<comment> \<open>True division of two Python floats, \<open>inv_beta / inv_alpha\<close>: it raises for a
      divisor that is zero and returns the machine quotient, finite or not, otherwise.\<close>
  "py_div np a b = (if is_zero np b then Inl ZeroDivisionError else Inr (truediv np a b))"

subsection \<open>Two-dimensional numpy arrays\<close>

text \<open>
  An array carries its \<open>shape\<close> (rows, columns) and its entries row by row. The shape is
  kept apart from the entries, as numpy does, so that a matrix with no row still has a
  column count.
\<close>

record 'a ndarray =
  shape :: "nat \<times> nat"
  data :: "'a list list"

definition wf_ndarray :: "'a ndarray \<Rightarrow> bool" where
  "wf_ndarray a =
     (length (data a) = fst (shape a) \<and>
      list_all (\<lambda>row. length row = snd (shape a)) (data a))"

definition entry :: "'a ndarray \<Rightarrow> nat \<Rightarrow> nat \<Rightarrow> 'a" where
  \<comment> \<open>The entry \<open>a[i, j]\<close>, read only inside the shape.\<close>
  "entry a i j = data a ! i ! j"

definition of_fun :: "nat \<Rightarrow> nat \<Rightarrow> (nat \<Rightarrow> nat \<Rightarrow> 'a) \<Rightarrow> 'a ndarray" where
  \<comment> \<open>The array of shape \<open>(r, c)\<close> whose entry \<open>[i, j]\<close> is \<open>f i j\<close>.\<close>
  "of_fun r c f =
     \<lparr>shape = (r, c), data = map (\<lambda>i. map (\<lambda>j. f i j) [0..<c]) [0..<r]\<rparr>"

definition ndarray_T :: "'a ndarray \<Rightarrow> 'a ndarray" where
  \<comment> \<open>\<open>a.T\<close>\<close>
  "ndarray_T a = of_fun (snd (shape a)) (fst (shape a)) (\<lambda>i j. entry a j i)"

definition matmul :: "'a numbers \<Rightarrow> 'a ndarray \<Rightarrow> 'a ndarray \<Rightarrow> 'a ndarray" where
  \<comment> \<open>The matrix product of two arrays whose inner dimensions agree: entry \<open>[i, j]\<close> is
      the sum of products of row \<open>i\<close> of the first and column \<open>j\<close> of the second.\<close>
  "matmul np a b =
     of_fun (fst (shape a)) (snd (shape b))
       (\<lambda>i j. inner np (map (\<lambda>k. entry a i k) [0..<snd (shape a)])
                        (map (\<lambda>k. entry b k j) [0..<snd (shape a)]))"

definition dot :: "'a numbers \<Rightarrow> 'a ndarray \<Rightarrow> 'a ndarray \<Rightarrow> error + 'a ndarray" where
  \<comment> \<open>\<open>a.dot(b)\<close>: numpy raises ValueError when the inner dimensions differ.\<close>
  "dot np a b =
     (if snd (shape a) = fst (shape b) then Inr (matmul np a b)
      else Inl (ValueError ''shapes not aligned''))"

definition eye :: "'a numbers \<Rightarrow> nat \<Rightarrow> 'a ndarray" where
  \<comment> \<open>\<open>numpy.eye(n)\<close>\<close>
  "eye np n = of_fun n n (\<lambda>i j. if i = j then float_one np else float_zero np)"

definition smul :: "'a numbers \<Rightarrow> 'a \<Rightarrow> 'a ndarray \<Rightarrow> 'a ndarray" where
  \<comment> \<open>\<open>c * a\<close>: a scalar times an array, entry by entry.\<close>
  "smul np c a = \<lparr>shape = shape a, data = map (map (\<lambda>x. mult np c x)) (data a)\<rparr>"

definition rmul :: "'a numbers \<Rightarrow> 'a ndarray \<Rightarrow> 'a \<Rightarrow> 'a ndarray" where
  \<comment> \<open>\<open>a * c\<close>: an array times a scalar, entry by entry.\<close>
  "rmul np a c = \<lparr>shape = shape a, data = map (map (\<lambda>x. mult np x c)) (data a)\<rparr>"

definition add :: "'a numbers \<Rightarrow> 'a ndarray \<Rightarrow> 'a ndarray \<Rightarrow> 'a ndarray" where
  \<comment> \<open>\<open>a + b\<close> for two arrays of one shape; both sums of the source add two square
      arrays of the size of the identity, so broadcasting never arises.\<close>
  "add np a b =
     of_fun (fst (shape a)) (snd (shape a)) (\<lambda>i j. addition np (entry a i j) (entry b i j))"

subsection \<open>Labelled matrices\<close>

text \<open>
  A pandas data frame: a two-dimensional array with one label per row (\<open>index\<close>) and one
  per column (\<open>columns\<close>). A label is a position, as in a frame read from a file without
  header, or a name.
\<close>

datatype label = Pos nat | Name string

record 'a dataframe =
  index :: "label list"
  columns :: "label list"
  vals :: "'a ndarray"  \<comment> \<open>\<open>m.values\<close>\<close>

definition Matrix :: "'a ndarray \<Rightarrow> 'a dataframe" where
  \<comment> \<open>Modelled from the spec: the class \<open>Matrix\<close> of \<open>brede/core/matrix.py\<close> is not among
      the sources. The specification describes its values as dense matrices with
      labelled axes and no further state, so \<open>Matrix(a)\<close> is the data frame of the array,
      labelled by positions on both axes, as \<open>read_csv\<close> with \<open>header=None\<close> and
      the construction from a bare array label it.\<close>
  "Matrix a =
     \<lparr>index = map Pos [0..<fst (shape a)], columns = map Pos [0..<snd (shape a)], vals = a\<rparr>"

definition set_index :: "'a dataframe \<Rightarrow> label list \<Rightarrow> error + 'a dataframe" where
  \<comment> \<open>\<open>m.index = labels\<close>: pandas raises ValueError unless there is one label per row.\<close>
  "set_index m labels =
     (if length labels = fst (shape (vals m)) then Inr (m\<lparr>index := labels\<rparr>)
      else Inl (ValueError ''Length mismatch''))"

definition imul :: "'a numbers \<Rightarrow> 'a dataframe \<Rightarrow> 'a \<Rightarrow> 'a dataframe" where
  \<comment> \<open>\<open>m *= c\<close> multiplies every entry by \<open>c\<close>, in the arithmetic of the entry; the
      labels stay.\<close>
  "imul np m c = m\<lparr>vals := rmul np (vals m) c\<rparr>"

definition dataframe_T :: "'a dataframe \<Rightarrow> 'a dataframe" where
  \<comment> \<open>\<open>m.T\<close> swaps the two axes with their labels.\<close>
  "dataframe_T m = \<lparr>index = columns m, columns = index m, vals = ndarray_T (vals m)\<rparr>"

subsection \<open>The data directory\<close>

text \<open>
  The three files of a hardware directory, as \<open>read_csv\<close> returns them once \<open>unpack\<close>
  has run: the table of numbers, or the exception raised when the file is missing or
  cannot be parsed. The key is the \<open>hardware\<close> argument, which the source pastes into
  the file name before anything checks it.
\<close>

record 'a assets =
  forwardmodel_spheres_reduced :: "string \<Rightarrow> error + 'a ndarray"
  spatialCoherenceSmooth0_2_reduced :: "string \<Rightarrow> error + 'a ndarray"
  spatialCoherenceSmooth0_2_reduced_inverse :: "string \<Rightarrow> error + 'a ndarray"

subsection \<open>SBS2Data\<close>

definition SBS2_ELECTRODES_EMOTIV :: "string list" where
  "SBS2_ELECTRODES_EMOTIV =
     [''P7'', ''FC6'', ''T7'', ''P8'', ''O2'', ''O1'', ''FC5'',
      ''F3'', ''F4'', ''T8'', ''F7'', ''F8'', ''AF4'', ''AF3'']"

definition SBS2_ELECTRODES_EMOCAP :: "string list" where
  "SBS2_ELECTRODES_EMOCAP =
     [''TP10'', ''Fz'', ''P3'', ''Cz'', ''C4'', ''TP9'', ''Pz'', ''P4'',
      ''F3'', ''C3'', ''O1'', ''F4'', ''Fpz'', ''O2'']"

definition electrode_names :: "string \<Rightarrow> error + string list" where
  "electrode_names hardware =
     (if hardware = ''emotiv'' then Inr SBS2_ELECTRODES_EMOTIV
      else if hardware = ''emocap'' then Inr SBS2_ELECTRODES_EMOCAP
      else Inl (ValueError ''Wrong argument to model''))"

definition forward_model :: "'a numbers \<Rightarrow> 'a assets \<Rightarrow> string \<Rightarrow> error + 'a dataframe" where
  "forward_model np self hardware =
     bindE (forwardmodel_spheres_reduced self hardware) (\<lambda>raw.
     bindE (electrode_names hardware) (\<lambda>names.
     bindE (set_index (Matrix raw) (map Name names)) (\<lambda>matrix.
     Inr (dataframe_T (imul np matrix (py_int np 1000000))))))"

definition spatial_coherence :: "'a assets \<Rightarrow> string \<Rightarrow> error + 'a dataframe" where
  "spatial_coherence self hardware =
     bindE (spatialCoherenceSmooth0_2_reduced self hardware) (\<lambda>raw. Inr (Matrix raw))"

definition inverse_spatial_coherence :: "'a assets \<Rightarrow> string \<Rightarrow> error + 'a dataframe" where
  "inverse_spatial_coherence self hardware =
     bindE (spatialCoherenceSmooth0_2_reduced_inverse self hardware) (\<lambda>raw. Inr (Matrix raw))"

text \<open>
  \<open>scipy.linalg.pinv\<close> is not code of the repository either: the inverse model takes it
  as the parameter \<open>pinv\<close>. It returns an array or raises, as it does with ValueError
  for an argument that holds an infinity or a not-a-number.
\<close>

definition inverse_model ::
  "'a numbers \<Rightarrow> ('a ndarray \<Rightarrow> error + 'a ndarray) \<Rightarrow> 'a assets \<Rightarrow> string \<Rightarrow> string \<Rightarrow>
   'a \<Rightarrow> 'a \<Rightarrow> error + 'a dataframe"
where
  "inverse_model np pinv self hardware method inv_alpha inv_beta =
     bindE (forward_model np self hardware) (\<lambda>fm.
     let forward = vals fm;
         identity = eye np (snd (shape forward))
     in
     bindE
       (if method = ''minimumnorm'' then
          bindE (dot np (ndarray_T forward) forward) (\<lambda>ftf.
          bindE (py_div np inv_beta inv_alpha) (\<lambda>q.
          bindE (pinv (add np ftf (smul np q identity))) (\<lambda>p.
          dot np p (ndarray_T forward))))
        else if method = ''LORETA'' then
          bindE (spatial_coherence self hardware) (\<lambda>sc.
          let coherence = vals sc in
          bindE (dot np coherence forward) (\<lambda>forward_and_coherence.
          bindE (dot np (ndarray_T forward) forward_and_coherence) (\<lambda>ftfc.
          let sigma_inv = add np (smul np inv_alpha ftfc) (smul np inv_beta identity) in
          bindE (pinv sigma_inv) (\<lambda>p.
          bindE (dot np p (ndarray_T forward_and_coherence)) (\<lambda>pfc.
          Inr (smul np inv_alpha pfc))))))
        else Inl (ValueError ''Wrong method''))
       (\<lambda>inverse.
     bindE (electrode_names hardware) (\<lambda>names.
     set_index (Matrix inverse) (map Name names))))"

subsection \<open>The arguments of the pseudo-inverse\<close>

text \<open>
  The matrices of the specification that are handed to \<open>pinv\<close>: \<open>F\<close> is the forward model
  (sources by channels), \<open>L\<close> the spatial coherence (sources by sources), and the identity
  has the size of the channel dimension.
\<close>

definition minimumnorm_Sigma :: "'a numbers \<Rightarrow> 'a ndarray \<Rightarrow> 'a \<Rightarrow> 'a \<Rightarrow> 'a ndarray" where
  \<comment> \<open>\<open>F\<^sup>t F + (beta / alpha) I\<close>\<close>
  "minimumnorm_Sigma np F alpha beta =
     add np (matmul np (ndarray_T F) F) (smul np (truediv np beta alpha) (eye np (snd (shape F))))"

definition LORETA_Sigma_inv ::
  "'a numbers \<Rightarrow> 'a ndarray \<Rightarrow> 'a ndarray \<Rightarrow> 'a \<Rightarrow> 'a \<Rightarrow> 'a ndarray" where
  \<comment> \<open>\<open>alpha (F\<^sup>t (L F)) + beta I\<close>\<close>
  "LORETA_Sigma_inv np F L alpha beta =
     add np (smul np alpha (matmul np (ndarray_T F) (matmul np L F)))
            (smul np beta (eye np (snd (shape F))))"

subsection \<open>Exact arithmetic and a small data directory\<close>

text \<open>
  The arithmetic of the real numbers, in which nothing rounds or overflows: the machine
  arithmetic on numbers small enough, rounding apart. The examples are computed in it.
\<close>

definition exact :: "real numbers" where
  "exact =
     \<lparr>mult = (\<lambda>x y. x * y),
      addition = (\<lambda>x y. x + y),
      inner = (\<lambda>xs ys. sum_list (map (\<lambda>(x, y). x * y) (zip xs ys))),
      truediv = (\<lambda>x y. x / y),
      is_zero = (\<lambda>x. x = 0),
      py_int = (\<lambda>n. of_int n),
      float_zero = 0,
      float_one = 1\<rparr>"

text \<open>
  A data directory with the two hardware directories and nothing else: two sources, the
  first two channels orthogonal and the other twelve silent, so that the matrices handed
  to \<open>pinv\<close> are diagonal. \<open>pinv_diagonal\<close> is the pseudo-inverse on diagonal matrices:
  the reciprocal of every diagonal entry that is not zero.
\<close>

definition diagonal_reciprocal :: "real ndarray \<Rightarrow> real ndarray" where
  "diagonal_reciprocal a =
     of_fun (snd (shape a)) (fst (shape a))
       (\<lambda>i j. if i = j \<and> entry a i i \<noteq> 0 then 1 / entry a i i else 0)"

definition pinv_diagonal :: "real ndarray \<Rightarrow> error + real ndarray" where
  "pinv_diagonal a = Inr (diagonal_reciprocal a)"

definition example_forward :: "real ndarray" where
  "example_forward =
     \<lparr>shape = (14, 2),
      data = [[1 / 1000000, 1 / 1000000], [1 / 1000000, - 1 / 1000000],
              [0, 0], [0, 0], [0, 0], [0, 0], [0, 0], [0, 0],
              [0, 0], [0, 0], [0, 0], [0, 0], [0, 0], [0, 0]]\<rparr>"

definition example_F :: "real ndarray" where
  \<comment> \<open>The forward model of this directory: the file, times 1000000, transposed.\<close>
  "example_F =
     \<lparr>shape = (2, 14),
      data = [[1, 1, 0, 0, 0, 0, 0, 0, 0, 0, 0, 0, 0, 0],
              [1, - 1, 0, 0, 0, 0, 0, 0, 0, 0, 0, 0, 0, 0]]\<rparr>"

definition example_coherence :: "real ndarray" where
  "example_coherence = \<lparr>shape = (2, 2), data = [[2, 1], [1, 2]]\<rparr>"

definition example_coherence_inverse :: "real ndarray" where
  "example_coherence_inverse = \<lparr>shape = (2, 2), data = [[2 / 3, - 1 / 3], [- 1 / 3, 2 / 3]]\<rparr>"

definition in_hardware_dir :: "'a ndarray \<Rightarrow> string \<Rightarrow> error + 'a ndarray" where
  "in_hardware_dir a hardware =
     (if hardware = ''emotiv'' \<or> hardware = ''emocap'' then Inr a
      else Inl (IOError ''No such file or directory''))"

definition no_file :: "string \<Rightarrow> error + 'a ndarray" where
  "no_file hardware = Inl (IOError ''No such file or directory'')"

definition example_assets :: "real assets" where
  "example_assets =
     \<lparr>forwardmodel_spheres_reduced = in_hardware_dir example_forward,
      spatialCoherenceSmooth0_2_reduced = in_hardware_dir example_coherence,
      spatialCoherenceSmooth0_2_reduced_inverse = in_hardware_dir example_coherence_inverse\<rparr>"

definition forward_only_assets :: "real assets" where
  \<comment> \<open>The same directory without the two coherence files.\<close>
  "forward_only_assets =
     \<lparr>forwardmodel_spheres_reduced = in_hardware_dir example_forward,
      spatialCoherenceSmooth0_2_reduced = no_file,
      spatialCoherenceSmooth0_2_reduced_inverse = no_file\<rparr>"

definition in_any_dir :: "'a ndarray \<Rightarrow> string \<Rightarrow> error + 'a ndarray" where
  "in_any_dir a hardware = Inr a"

definition every_dir_assets :: "real assets" where
  \<comment> \<open>A directory that holds the three files under every hardware name.\<close>
  "every_dir_assets =
     \<lparr>forwardmodel_spheres_reduced = in_any_dir example_forward,
      spatialCoherenceSmooth0_2_reduced = in_any_dir example_coherence,
      spatialCoherenceSmooth0_2_reduced_inverse = in_any_dir example_coherence_inverse\<rparr>"

definition empty_assets :: "real assets" where
  \<comment> \<open>A directory without any of the files.\<close>
  "empty_assets =
     \<lparr>forwardmodel_spheres_reduced = no_file,
      spatialCoherenceSmooth0_2_reduced = no_file,
      spatialCoherenceSmooth0_2_reduced_inverse = no_file\<rparr>"

definition zeros :: "nat \<Rightarrow> nat \<Rightarrow> real ndarray" where
  \<comment> \<open>\<open>numpy.zeros((r, c))\<close>\<close>
  "zeros r c = \<lparr>shape = (r, c), data = replicate r (replicate c 0)\<rparr>"

definition reference_shaped_assets :: "real assets" where
  \<comment> \<open>A directory whose files have the shapes of the reference dataset.\<close>
  "reference_shaped_assets =
     \<lparr>forwardmodel_spheres_reduced = in_hardware_dir (zeros 14 1028),
      spatialCoherenceSmooth0_2_reduced = in_hardware_dir (zeros 1028 1028),
      spatialCoherenceSmooth0_2_reduced_inverse = in_hardware_dir (zeros 1028 1028)\<rparr>"

subsection \<open>The machine arithmetic, rounding apart\<close>

text \<open>
  One arithmetic of the kind the record stands for, written out: float64 numbers with
  their infinities and not-a-number, int64 numbers that wrap around, and the promotion
  of an int64 number that meets a float64 one. Rounding, and with it underflow and the
  sign of zero, is left out: a finite float64 result is the real result unless that
  reaches \<open>2 ^ 1024\<close>, where float64 ends. The theorems below hold for every arithmetic
  and do not rest on this one; it shows what they say where numbers overflow or wrap.
\<close>

datatype float64 = Fin real | PInf | NInf | NaN

datatype number = Int64 int | Float64 float64

definition overflow :: "real \<Rightarrow> float64" where
  "overflow x = (if 2 ^ 1024 \<le> x then PInf else if x \<le> - (2 ^ 1024) then NInf else Fin x)"

definition wrap64 :: "int \<Rightarrow> int" where
  "wrap64 n = (n + 2 ^ 63) mod 2 ^ 64 - 2 ^ 63"

fun fmul :: "float64 \<Rightarrow> float64 \<Rightarrow> float64" where
  "fmul NaN y = NaN"
| "fmul x NaN = NaN"
| "fmul (Fin x) (Fin y) = overflow (x * y)"
| "fmul (Fin x) PInf = (if 0 < x then PInf else if x < 0 then NInf else NaN)"
| "fmul (Fin x) NInf = (if 0 < x then NInf else if x < 0 then PInf else NaN)"
| "fmul PInf (Fin y) = (if 0 < y then PInf else if y < 0 then NInf else NaN)"
| "fmul NInf (Fin y) = (if 0 < y then NInf else if y < 0 then PInf else NaN)"
| "fmul PInf PInf = PInf"
| "fmul PInf NInf = NInf"
| "fmul NInf PInf = NInf"
| "fmul NInf NInf = PInf"

fun fadd :: "float64 \<Rightarrow> float64 \<Rightarrow> float64" where
  "fadd NaN y = NaN"
| "fadd x NaN = NaN"
| "fadd (Fin x) (Fin y) = overflow (x + y)"
| "fadd (Fin x) PInf = PInf"
| "fadd (Fin x) NInf = NInf"
| "fadd PInf (Fin y) = PInf"
| "fadd NInf (Fin y) = NInf"
| "fadd PInf PInf = PInf"
| "fadd NInf NInf = NInf"
| "fadd PInf NInf = NaN"
| "fadd NInf PInf = NaN"

fun fdiv :: "float64 \<Rightarrow> float64 \<Rightarrow> float64" where
  \<comment> \<open>for a divisor that is not zero\<close>
  "fdiv NaN y = NaN"
| "fdiv x NaN = NaN"
| "fdiv (Fin x) (Fin y) = overflow (x / y)"
| "fdiv (Fin x) PInf = Fin 0"
| "fdiv (Fin x) NInf = Fin 0"
| "fdiv PInf (Fin y) = (if 0 < y then PInf else NInf)"
| "fdiv NInf (Fin y) = (if 0 < y then NInf else PInf)"
| "fdiv PInf PInf = NaN"
| "fdiv PInf NInf = NaN"
| "fdiv NInf PInf = NaN"
| "fdiv NInf NInf = NaN"

fun to_float :: "number \<Rightarrow> float64" where
  "to_float (Int64 n) = Fin (of_int n)"
| "to_float (Float64 x) = x"

fun machine_mult :: "number \<Rightarrow> number \<Rightarrow> number" where
  "machine_mult (Int64 m) (Int64 n) = Int64 (wrap64 (m * n))"
| "machine_mult a b = Float64 (fmul (to_float a) (to_float b))"

fun machine_add :: "number \<Rightarrow> number \<Rightarrow> number" where
  "machine_add (Int64 m) (Int64 n) = Int64 (wrap64 (m + n))"
| "machine_add a b = Float64 (fadd (to_float a) (to_float b))"

definition machine :: "number numbers" where
  "machine =
     \<lparr>mult = machine_mult,
      addition = machine_add,
      inner = (\<lambda>xs ys. foldl machine_add (Int64 0) (map (\<lambda>(x, y). machine_mult x y) (zip xs ys))),
      truediv = (\<lambda>x y. Float64 (fdiv (to_float x) (to_float y))),
      is_zero = (\<lambda>x. to_float x = Fin 0),
      py_int = Int64,
      float_zero = Float64 (Fin 0),
      float_one = Float64 (Fin 1)\<rparr>"

fun isfinite :: "number \<Rightarrow> bool" where
  "isfinite (Int64 n) = True"
| "isfinite (Float64 (Fin x)) = True"
| "isfinite (Float64 x) = False"

definition pinv_checked ::
  "(number ndarray \<Rightarrow> error + number ndarray) \<Rightarrow> number ndarray \<Rightarrow> error + number ndarray"
where
  \<comment> \<open>A pseudo-inverse that first looks at its argument, as \<open>scipy.linalg.pinv\<close> does
      with \<open>check_finite\<close>, and raises for one that is not finite throughout.\<close>
  "pinv_checked p a =
     (if list_all (list_all isfinite) (data a) then p a
      else Inl (ValueError ''array must not contain infs or NaNs''))"

definition int64_forward :: "number ndarray" where
  \<comment> \<open>A file of integers, one source: int64 throughout.\<close>
  "int64_forward =
     \<lparr>shape = (14, 1),
      data = [[Int64 10000000000000], [Int64 3], [Int64 0], [Int64 0], [Int64 0], [Int64 0],
              [Int64 0], [Int64 0], [Int64 0], [Int64 0], [Int64 0], [Int64 0], [Int64 0],
              [Int64 0]]\<rparr>"

definition large_forward :: "number ndarray" where
  \<comment> \<open>A file with the float64 number \<open>1e305\<close>.\<close>
  "large_forward =
     \<lparr>shape = (14, 1),
      data = [[Float64 (Fin (10 ^ 305))], [Float64 (Fin 3)], [Float64 (Fin 0)],
              [Float64 (Fin 0)], [Float64 (Fin 0)], [Float64 (Fin 0)], [Float64 (Fin 0)],
              [Float64 (Fin 0)], [Float64 (Fin 0)], [Float64 (Fin 0)], [Float64 (Fin 0)],
              [Float64 (Fin 0)], [Float64 (Fin 0)], [Float64 (Fin 0)]]\<rparr>"

definition forward_file_assets :: "'a ndarray \<Rightarrow> 'a assets" where
  \<comment> \<open>A directory with the given forward-model file and no coherence file.\<close>
  "forward_file_assets a =
     \<lparr>forwardmodel_spheres_reduced = in_hardware_dir a,
      spatialCoherenceSmooth0_2_reduced = no_file,
      spatialCoherenceSmooth0_2_reduced_inverse = no_file\<rparr>"

definition example_forward_float64 :: "number ndarray" where
  "example_forward_float64 =
     \<lparr>shape = shape example_forward,
      data = map (map (\<lambda>x. Float64 (Fin x))) (data example_forward)\<rparr>"

definition alpha_1e_200 :: number where
  \<comment> \<open>the Python float \<open>1e-200\<close>\<close>
  "alpha_1e_200 = Float64 (Fin (1 / 10 ^ 200))"

definition beta_1e200 :: number where
  \<comment> \<open>the Python float \<open>1e200\<close>\<close>
  "beta_1e200 = Float64 (Fin (10 ^ 200))"

definition example_coherence_float64 :: "number ndarray" where
  "example_coherence_float64 =
     \<lparr>shape = shape example_coherence,
      data = map (map (\<lambda>x. Float64 (Fin x))) (data example_coherence)\<rparr>"

definition float64_assets :: "number assets" where
  \<comment> \<open>The small data directory, its numbers being float64 numbers.\<close>
  "float64_assets =
     \<lparr>forwardmodel_spheres_reduced = in_hardware_dir example_forward_float64,
      spatialCoherenceSmooth0_2_reduced = in_hardware_dir example_coherence_float64,
      spatialCoherenceSmooth0_2_reduced_inverse = no_file\<rparr>"

definition alpha_1e308 :: number where
  \<comment> \<open>the Python float \<open>1e308\<close>\<close>
  "alpha_1e308 = Float64 (Fin (10 ^ 308))"

section \<open>Basic facts\<close>

lemma shape_of_fun: "shape (of_fun r c f) = (r, c)"
  by (simp add: of_fun_def)

lemma wf_of_fun: "wf_ndarray (of_fun r c f)"
  by (simp add: of_fun_def wf_ndarray_def list_all_iff)

lemma entry_of_fun: "i < r \<Longrightarrow> j < c \<Longrightarrow> entry (of_fun r c f) i j = f i j"
  by (simp add: of_fun_def entry_def)

lemma shape_smul: "shape (smul np c a) = shape a"
  by (simp add: smul_def)

lemma wf_smul: "wf_ndarray a \<Longrightarrow> wf_ndarray (smul np c a)"
  by (simp add: smul_def wf_ndarray_def list_all_iff)

lemma entry_smul:
  "wf_ndarray a \<Longrightarrow> i < fst (shape a) \<Longrightarrow> j < snd (shape a) \<Longrightarrow>
   entry (smul np c a) i j = mult np c (entry a i j)"
  by (simp add: smul_def wf_ndarray_def entry_def list_all_length)

lemma shape_rmul: "shape (rmul np a c) = shape a"
  by (simp add: rmul_def)

lemma wf_rmul: "wf_ndarray a \<Longrightarrow> wf_ndarray (rmul np a c)"
  by (simp add: rmul_def wf_ndarray_def list_all_iff)

lemma entry_rmul:
  "wf_ndarray a \<Longrightarrow> i < fst (shape a) \<Longrightarrow> j < snd (shape a) \<Longrightarrow>
   entry (rmul np a c) i j = mult np (entry a i j) c"
  by (simp add: rmul_def wf_ndarray_def entry_def list_all_length)

lemma shape_ndarray_T: "shape (ndarray_T a) = (snd (shape a), fst (shape a))"
  by (simp add: ndarray_T_def shape_of_fun)

lemma wf_ndarray_T: "wf_ndarray (ndarray_T a)"
  by (simp add: ndarray_T_def wf_of_fun)

lemma entry_ndarray_T:
  "i < snd (shape a) \<Longrightarrow> j < fst (shape a) \<Longrightarrow> entry (ndarray_T a) i j = entry a j i"
  by (simp add: ndarray_T_def entry_of_fun)

lemma shape_matmul: "shape (matmul np a b) = (fst (shape a), snd (shape b))"
  by (simp add: matmul_def shape_of_fun)

lemma wf_matmul: "wf_ndarray (matmul np a b)"
  by (simp add: matmul_def wf_of_fun)

lemma entry_matmul:
  "i < fst (shape a) \<Longrightarrow> j < snd (shape b) \<Longrightarrow>
   entry (matmul np a b) i j =
     inner np (map (\<lambda>k. entry a i k) [0..<snd (shape a)])
              (map (\<lambda>k. entry b k j) [0..<snd (shape a)])"
  by (simp add: matmul_def entry_of_fun)

lemma shape_add: "shape (add np a b) = shape a"
  by (simp add: add_def shape_of_fun)

lemma wf_add: "wf_ndarray (add np a b)"
  by (simp add: add_def wf_of_fun)

lemma entry_add:
  "i < fst (shape a) \<Longrightarrow> j < snd (shape a) \<Longrightarrow>
   entry (add np a b) i j = addition np (entry a i j) (entry b i j)"
  by (simp add: add_def entry_of_fun)

lemma shape_eye: "shape (eye np n) = (n, n)"
  by (simp add: eye_def shape_of_fun)

lemma wf_eye: "wf_ndarray (eye np n)"
  by (simp add: eye_def wf_of_fun)

lemma entry_eye:
  "i < n \<Longrightarrow> j < n \<Longrightarrow> entry (eye np n) i j = (if i = j then float_one np else float_zero np)"
  by (simp add: eye_def entry_of_fun)

lemma entry_literal: "entry \<lparr>shape = s, data = d\<rparr> i j = d ! i ! j"
  by (simp add: entry_def)

lemma data_matmul:
  "data (matmul np a b) =
     map (\<lambda>i. map (\<lambda>j. inner np (map (\<lambda>k. entry a i k) [0..<snd (shape a)])
                                 (map (\<lambda>k. entry b k j) [0..<snd (shape a)]))
                  [0..<snd (shape b)]) [0..<fst (shape a)]"
  by (simp add: matmul_def of_fun_def)

lemma data_smul: "data (smul np c a) = map (map (\<lambda>x. mult np c x)) (data a)"
  by (simp add: smul_def)

lemma upt_14: "[0..<14] = [0, 1, 2, 3, 4, 5, 6, 7, 8, 9, 10, 11, 12, 13::nat]"
  by code_simp

lemma upt_2: "[0..<2] = [0, 1::nat]"
  by code_simp

lemma electrode_names_length: "electrode_names hardware = Inr names \<Longrightarrow> length names = 14"
  by (auto simp: electrode_names_def SBS2_ELECTRODES_EMOTIV_def SBS2_ELECTRODES_EMOCAP_def
      split: if_splits)

lemma forward_model_Inr:
  assumes "forwardmodel_spheres_reduced self hardware = Inr raw"
    and "electrode_names hardware = Inr names"
    and "fst (shape raw) = length names"
  shows "forward_model np self hardware =
    Inr \<lparr>index = map Pos [0..<snd (shape raw)], columns = map Name names,
         vals = ndarray_T (rmul np raw (py_int np 1000000))\<rparr>"
  using assms
  by (simp add: forward_model_def bindE_def set_index_def Matrix_def imul_def dataframe_T_def
      shape_rmul)

lemma forward_model_InrD:
  assumes "forward_model np self hardware = Inr fm"
  shows "\<exists>raw names. forwardmodel_spheres_reduced self hardware = Inr raw
      \<and> electrode_names hardware = Inr names \<and> fst (shape raw) = length names
      \<and> fm = \<lparr>index = map Pos [0..<snd (shape raw)], columns = map Name names,
               vals = ndarray_T (rmul np raw (py_int np 1000000))\<rparr>"
  using assms
  by (auto simp: forward_model_def bindE_def set_index_def Matrix_def imul_def dataframe_T_def
      shape_rmul split: sum.splits if_splits)

text \<open>
  The inverse model, once the forward model is there: it raises what \<open>pinv\<close> raises and
  returns the product with what \<open>pinv\<close> returns.
\<close>

lemma minimumnorm_run:
  assumes fm: "forward_model np self hardware = Inr fm"
    and pinv: "\<And>a p. wf_ndarray a \<Longrightarrow> pinv a = Inr p \<Longrightarrow>
                 shape p = (snd (shape a), fst (shape a))"
    and alpha: "\<not> is_zero np inv_alpha"
  shows "inverse_model np pinv self hardware ''minimumnorm'' inv_alpha inv_beta =
    (case pinv (minimumnorm_Sigma np (vals fm) inv_alpha inv_beta) of
       Inl e \<Rightarrow> Inl e
     | Inr p \<Rightarrow>
         Inr \<lparr>index = columns fm, columns = map Pos [0..<fst (shape (vals fm))],
              vals = matmul np p (ndarray_T (vals fm))\<rparr>)"
proof -
  from forward_model_InrD[OF fm] obtain raw names where
    names: "electrode_names hardware = Inr names" and
    rows: "fst (shape raw) = length names" and
    fm_eq: "fm = \<lparr>index = map Pos [0..<snd (shape raw)], columns = map Name names,
               vals = ndarray_T (rmul np raw (py_int np 1000000))\<rparr>"
    by blast
  let ?F = "vals fm"
  let ?S = "minimumnorm_Sigma np ?F inv_alpha inv_beta"
  have shF: "shape ?F = (snd (shape raw), length names)"
    by (simp add: fm_eq shape_ndarray_T shape_rmul rows)
  have wfS: "wf_ndarray ?S"
    by (simp add: minimumnorm_Sigma_def wf_add)
  have shS: "shape ?S = (length names, length names)"
    by (simp add: minimumnorm_Sigma_def shape_add shape_matmul shape_ndarray_T shF)
  have d1: "dot np (ndarray_T ?F) ?F = Inr (matmul np (ndarray_T ?F) ?F)"
    by (simp add: dot_def shape_ndarray_T)
  have cols: "columns fm = map Name names"
    by (simp add: fm_eq)
  have start: "inverse_model np pinv self hardware ''minimumnorm'' inv_alpha inv_beta =
      bindE (bindE (pinv ?S) (\<lambda>p. dot np p (ndarray_T ?F)))
        (\<lambda>inverse. set_index (Matrix inverse) (map Name names))"
    unfolding inverse_model_def
    by (simp add: fm bindE_def Let_def d1 py_div_def alpha names minimumnorm_Sigma_def)
  show ?thesis
  proof (cases "pinv ?S")
    case (Inl e)
    then show ?thesis
      by (simp add: start bindE_def)
  next
    case (Inr p)
    have shp: "shape p = (length names, length names)"
      using pinv[OF wfS Inr] shS by simp
    have d2: "dot np p (ndarray_T ?F) = Inr (matmul np p (ndarray_T ?F))"
      by (simp add: dot_def shp shape_ndarray_T shF)
    have sh: "shape (matmul np p (ndarray_T ?F)) = (length names, fst (shape ?F))"
      by (simp add: shape_matmul shp shape_ndarray_T)
    show ?thesis
      by (simp add: start Inr bindE_def d2 set_index_def Matrix_def sh cols)
  qed
qed

lemma LORETA_run:
  assumes fm: "forward_model np self hardware = Inr fm"
    and sc: "spatial_coherence self hardware = Inr sc"
    and shL: "shape (vals sc) = (fst (shape (vals fm)), fst (shape (vals fm)))"
    and pinv: "\<And>a p. wf_ndarray a \<Longrightarrow> pinv a = Inr p \<Longrightarrow>
                 shape p = (snd (shape a), fst (shape a))"
  shows "inverse_model np pinv self hardware ''LORETA'' inv_alpha inv_beta =
    (case pinv (LORETA_Sigma_inv np (vals fm) (vals sc) inv_alpha inv_beta) of
       Inl e \<Rightarrow> Inl e
     | Inr p \<Rightarrow>
         Inr \<lparr>index = columns fm, columns = map Pos [0..<fst (shape (vals fm))],
              vals = smul np inv_alpha
                       (matmul np p (ndarray_T (matmul np (vals sc) (vals fm))))\<rparr>)"
proof -
  from forward_model_InrD[OF fm] obtain raw names where
    names: "electrode_names hardware = Inr names" and
    rows: "fst (shape raw) = length names" and
    fm_eq: "fm = \<lparr>index = map Pos [0..<snd (shape raw)], columns = map Name names,
               vals = ndarray_T (rmul np raw (py_int np 1000000))\<rparr>"
    by blast
  let ?F = "vals fm"
  let ?L = "vals sc"
  let ?FC = "matmul np ?L ?F"
  let ?S = "LORETA_Sigma_inv np ?F ?L inv_alpha inv_beta"
  have shF: "shape ?F = (snd (shape raw), length names)"
    by (simp add: fm_eq shape_ndarray_T shape_rmul rows)
  have wfS: "wf_ndarray ?S"
    by (simp add: LORETA_Sigma_inv_def wf_add)
  have shS: "shape ?S = (length names, length names)"
    by (simp add: LORETA_Sigma_inv_def shape_add shape_smul shape_matmul shape_ndarray_T shF)
  have d0: "dot np ?L ?F = Inr ?FC"
    by (simp add: dot_def shL)
  have d1: "dot np (ndarray_T ?F) ?FC = Inr (matmul np (ndarray_T ?F) ?FC)"
    by (simp add: dot_def shape_ndarray_T shape_matmul shL)
  have cols: "columns fm = map Name names"
    by (simp add: fm_eq)
  have start: "inverse_model np pinv self hardware ''LORETA'' inv_alpha inv_beta =
      bindE (bindE (pinv ?S) (\<lambda>p. bindE (dot np p (ndarray_T ?FC))
                (\<lambda>pfc. Inr (smul np inv_alpha pfc))))
        (\<lambda>inverse. set_index (Matrix inverse) (map Name names))"
    unfolding inverse_model_def
    by (simp add: fm sc bindE_def Let_def d0 d1 names LORETA_Sigma_inv_def)
  show ?thesis
  proof (cases "pinv ?S")
    case (Inl e)
    then show ?thesis
      by (simp add: start bindE_def)
  next
    case (Inr p)
    have shp: "shape p = (length names, length names)"
      using pinv[OF wfS Inr] shS by simp
    have d2: "dot np p (ndarray_T ?FC) = Inr (matmul np p (ndarray_T ?FC))"
      by (simp add: dot_def shp shape_ndarray_T shape_matmul shF)
    have sh: "shape (smul np inv_alpha (matmul np p (ndarray_T ?FC))) =
        (length names, fst (shape ?F))"
      by (simp add: shape_smul shape_matmul shp shape_ndarray_T shL)
    show ?thesis
      by (simp add: start Inr bindE_def d2 set_index_def Matrix_def sh cols)
  qed
qed

section \<open>The electrode catalogue\<close>

text \<open>
  C7. \<open>electrode_names\<close> returns the hardcoded sequence of 14 names for \<open>emotiv\<close> and
  another one, also of 14 names, for \<open>emocap\<close>; for every other argument it raises
  ValueError, so it fails exactly when the hardware is neither of the two. It takes
  nothing but its argument and returns nothing but its result.
\<close>

theorem electrode_names_catalog:
  "electrode_names ''emotiv'' =
     Inr [''P7'', ''FC6'', ''T7'', ''P8'', ''O2'', ''O1'', ''FC5'',
          ''F3'', ''F4'', ''T8'', ''F7'', ''F8'', ''AF4'', ''AF3'']
   \<and> electrode_names ''emocap'' =
     Inr [''TP10'', ''Fz'', ''P3'', ''Cz'', ''C4'', ''TP9'', ''Pz'', ''P4'',
          ''F3'', ''C3'', ''O1'', ''F4'', ''Fpz'', ''O2'']
   \<and> length SBS2_ELECTRODES_EMOTIV = 14
   \<and> length SBS2_ELECTRODES_EMOCAP = 14
   \<and> SBS2_ELECTRODES_EMOTIV \<noteq> SBS2_ELECTRODES_EMOCAP
   \<and> (electrode_names hardware = Inl (ValueError ''Wrong argument to model'')
        \<longleftrightarrow> hardware \<noteq> ''emotiv'' \<and> hardware \<noteq> ''emocap'')
   \<and> (isl (electrode_names hardware)
        \<longleftrightarrow> hardware \<noteq> ''emotiv'' \<and> hardware \<noteq> ''emocap'')"
  by (simp add: electrode_names_def SBS2_ELECTRODES_EMOTIV_def SBS2_ELECTRODES_EMOCAP_def)

section \<open>The small data directory, computed\<close>

lemma mult_exact: "mult exact x y = x * y"
  by (simp add: exact_def)

lemma addition_exact: "addition exact x y = x + y"
  by (simp add: exact_def)

lemma inner_exact: "inner exact xs ys = sum_list (map (\<lambda>(x, y). x * y) (zip xs ys))"
  by (simp add: exact_def)

lemma truediv_exact: "truediv exact x y = x / y"
  by (simp add: exact_def)

lemma is_zero_exact: "is_zero exact x \<longleftrightarrow> x = 0"
  by (simp add: exact_def)

lemma py_int_exact: "py_int exact n = of_int n"
  by (simp add: exact_def)

lemma float_zero_exact: "float_zero exact = 0"
  by (simp add: exact_def)

lemma float_one_exact: "float_one exact = 1"
  by (simp add: exact_def)

lemmas exact_simps =
  mult_exact addition_exact inner_exact truediv_exact is_zero_exact py_int_exact
  float_zero_exact float_one_exact

lemma shape_diagonal_reciprocal:
  "shape (diagonal_reciprocal a) = (snd (shape a), fst (shape a))"
  by (simp add: diagonal_reciprocal_def shape_of_fun)

lemma wf_diagonal_reciprocal: "wf_ndarray (diagonal_reciprocal a)"
  by (simp add: diagonal_reciprocal_def wf_of_fun)

lemma entry_diagonal_reciprocal:
  "i < snd (shape a) \<Longrightarrow> j < fst (shape a) \<Longrightarrow>
   entry (diagonal_reciprocal a) i j =
     (if i = j \<and> entry a i i \<noteq> 0 then 1 / entry a i i else 0)"
  by (simp add: diagonal_reciprocal_def entry_of_fun)

lemma pinv_diagonal_shape:
  "wf_ndarray a \<Longrightarrow> pinv_diagonal a = Inr p \<Longrightarrow> shape p = (snd (shape a), fst (shape a))"
  by (auto simp: pinv_diagonal_def shape_diagonal_reciprocal)

lemma wf_example_forward: "wf_ndarray example_forward"
  by (simp add: wf_ndarray_def example_forward_def)

lemma wf_example_coherence: "wf_ndarray example_coherence"
  by (simp add: wf_ndarray_def example_coherence_def)

lemma shape_example_F: "shape example_F = (2, 14)"
  by (simp add: example_F_def)

lemma shape_example_coherence: "shape example_coherence = (2, 2)"
  by (simp add: example_coherence_def)

lemma forward_model_example:
  "forward_model exact example_assets ''emotiv'' =
     Inr \<lparr>index = [Pos 0, Pos 1], columns = map Name SBS2_ELECTRODES_EMOTIV, vals = example_F\<rparr>"
  by (simp add: forward_model_def example_assets_def in_hardware_dir_def example_forward_def
      bindE_def electrode_names_def set_index_def Matrix_def imul_def dataframe_T_def
      ndarray_T_def rmul_def of_fun_def entry_def SBS2_ELECTRODES_EMOTIV_def example_F_def
      exact_simps upt_14 upt_2)

lemma spatial_coherence_example:
  "spatial_coherence example_assets ''emotiv'' =
     Inr \<lparr>index = [Pos 0, Pos 1], columns = [Pos 0, Pos 1], vals = example_coherence\<rparr>"
  by (simp add: spatial_coherence_def example_assets_def in_hardware_dir_def bindE_def Matrix_def
      example_coherence_def upt_2)

text \<open>
  The entries of a product are computed one at a time from the entries of its factors,
  without writing out the 14 by 14 matrices in between.
\<close>

lemmas entry_simps =
  shape_smul shape_matmul shape_add shape_eye shape_ndarray_T shape_diagonal_reciprocal
  wf_matmul wf_add wf_eye wf_ndarray_T wf_diagonal_reciprocal wf_smul
  entry_literal entry_smul entry_matmul entry_add entry_eye entry_ndarray_T
  entry_diagonal_reciprocal exact_simps upt_14 upt_2

lemma minimumnorm_example:
  "matmul exact (diagonal_reciprocal (minimumnorm_Sigma exact example_F 1 2))
     (ndarray_T example_F) =
     \<lparr>shape = (14, 2),
      data = [[1 / 4, 1 / 4], [1 / 4, - 1 / 4],
              [0, 0], [0, 0], [0, 0], [0, 0], [0, 0], [0, 0],
              [0, 0], [0, 0], [0, 0], [0, 0], [0, 0], [0, 0]]\<rparr>"
  (is "?X = _")
proof -
  have s: "shape ?X = (14, 2)"
    by (simp add: minimumnorm_Sigma_def example_F_def entry_simps)
  have d: "data ?X =
      [[1 / 4, 1 / 4], [1 / 4, - 1 / 4],
       [0, 0], [0, 0], [0, 0], [0, 0], [0, 0], [0, 0],
       [0, 0], [0, 0], [0, 0], [0, 0], [0, 0], [0, 0]]"
    by (simp add: minimumnorm_Sigma_def example_F_def data_matmul entry_simps)
  show ?thesis
    by (rule ndarray.equality) (simp_all add: s d)
qed

text \<open>
  Without regularisation the matrix handed to \<open>pinv\<close> is singular, twelve of its diagonal
  entries being zero, and the result is the pseudo-inverse of the forward model.
\<close>

lemma minimumnorm_example_singular:
  "matmul exact (diagonal_reciprocal (minimumnorm_Sigma exact example_F 1 0))
     (ndarray_T example_F) =
     \<lparr>shape = (14, 2),
      data = [[1 / 2, 1 / 2], [1 / 2, - 1 / 2],
              [0, 0], [0, 0], [0, 0], [0, 0], [0, 0], [0, 0],
              [0, 0], [0, 0], [0, 0], [0, 0], [0, 0], [0, 0]]\<rparr>"
  (is "?X = _")
proof -
  have s: "shape ?X = (14, 2)"
    by (simp add: minimumnorm_Sigma_def example_F_def entry_simps)
  have d: "data ?X =
      [[1 / 2, 1 / 2], [1 / 2, - 1 / 2],
       [0, 0], [0, 0], [0, 0], [0, 0], [0, 0], [0, 0],
       [0, 0], [0, 0], [0, 0], [0, 0], [0, 0], [0, 0]]"
    by (simp add: minimumnorm_Sigma_def example_F_def data_matmul entry_simps)
  show ?thesis
    by (rule ndarray.equality) (simp_all add: s d)
qed

lemma LORETA_example:
  "smul exact (1 / 2)
     (matmul exact
        (diagonal_reciprocal (LORETA_Sigma_inv exact example_F example_coherence (1 / 2) 1))
        (ndarray_T (matmul exact example_coherence example_F))) =
     \<lparr>shape = (14, 2),
      data = [[3 / 8, 3 / 8], [1 / 4, - 1 / 4],
              [0, 0], [0, 0], [0, 0], [0, 0], [0, 0], [0, 0],
              [0, 0], [0, 0], [0, 0], [0, 0], [0, 0], [0, 0]]\<rparr>"
  (is "?X = _")
proof -
  have s: "shape ?X = (14, 2)"
    by (simp add: LORETA_Sigma_inv_def example_F_def example_coherence_def entry_simps)
  have d: "data ?X =
      [[3 / 8, 3 / 8], [1 / 4, - 1 / 4],
       [0, 0], [0, 0], [0, 0], [0, 0], [0, 0], [0, 0],
       [0, 0], [0, 0], [0, 0], [0, 0], [0, 0], [0, 0]]"
    by (simp add: LORETA_Sigma_inv_def example_F_def example_coherence_def
        data_smul data_matmul entry_simps)
  show ?thesis
    by (rule ndarray.equality) (simp_all add: s d)
qed

lemma inverse_model_example_minimumnorm:
  "inverse_model exact pinv_diagonal example_assets ''emotiv'' ''minimumnorm'' 1 2 =
     Inr \<lparr>index = map Name SBS2_ELECTRODES_EMOTIV, columns = [Pos 0, Pos 1],
          vals = \<lparr>shape = (14, 2),
                  data = [[1 / 4, 1 / 4], [1 / 4, - 1 / 4],
                          [0, 0], [0, 0], [0, 0], [0, 0], [0, 0], [0, 0],
                          [0, 0], [0, 0], [0, 0], [0, 0], [0, 0], [0, 0]]\<rparr>\<rparr>"
proof -
  have nz: "\<not> is_zero exact 1"
    by (simp add: exact_simps)
  show ?thesis
    using minimumnorm_run[where pinv = pinv_diagonal and inv_beta = 2,
        OF forward_model_example pinv_diagonal_shape nz]
    by (simp add: pinv_diagonal_def upt_2 shape_example_F minimumnorm_example)
qed

lemma inverse_model_example_LORETA:
  "inverse_model exact pinv_diagonal example_assets ''emotiv'' ''LORETA'' (1 / 2) 1 =
     Inr \<lparr>index = map Name SBS2_ELECTRODES_EMOTIV, columns = [Pos 0, Pos 1],
          vals = \<lparr>shape = (14, 2),
                  data = [[3 / 8, 3 / 8], [1 / 4, - 1 / 4],
                          [0, 0], [0, 0], [0, 0], [0, 0], [0, 0], [0, 0],
                          [0, 0], [0, 0], [0, 0], [0, 0], [0, 0], [0, 0]]\<rparr>\<rparr>"
proof -
  have sh: "shape (vals \<lparr>index = [Pos 0, Pos 1], columns = [Pos 0, Pos 1],
                         vals = example_coherence\<rparr>) =
      (fst (shape (vals \<lparr>index = [Pos 0, Pos 1], columns = map Name SBS2_ELECTRODES_EMOTIV,
                         vals = example_F\<rparr>)),
       fst (shape (vals \<lparr>index = [Pos 0, Pos 1], columns = map Name SBS2_ELECTRODES_EMOTIV,
                         vals = example_F\<rparr>)))"
    by (simp add: shape_example_F shape_example_coherence)
  show ?thesis
    using LORETA_run[where pinv = pinv_diagonal and inv_alpha = "1 / 2" and inv_beta = 1,
        OF forward_model_example spatial_coherence_example sh pinv_diagonal_shape]
    by (simp add: pinv_diagonal_def upt_2 shape_example_F LORETA_example)
qed

section \<open>The forward model\<close>

text \<open>
  C3. For a supported hardware, \<open>forward_model\<close> takes the raw matrix of the file
  (channels by sources), labels its rows with the electrode names, multiplies every entry
  by 1000000, once, and transposes: the result has shape (sources, channels), its columns
  carry the electrode names in the order of the catalogue, its rows their positions, and
  its entry \<open>[i, j]\<close> is the machine product of the raw entry \<open>[j, i]\<close> and 1000000,
  whatever that product is in the arithmetic of the entry.
\<close>

theorem forward_model_construction:
  assumes raw: "forwardmodel_spheres_reduced self hardware = Inr raw"
    and wf: "wf_ndarray raw"
    and names: "electrode_names hardware = Inr names"
    and sh: "shape raw = (length names, sources)"
  shows "\<exists>fm. forward_model np self hardware = Inr fm
      \<and> fm = dataframe_T
               (imul np ((Matrix raw)\<lparr>index := map Name names\<rparr>) (py_int np 1000000))
      \<and> shape (vals fm) = (sources, length names)
      \<and> length names = 14
      \<and> wf_ndarray (vals fm)
      \<and> index fm = map Pos [0..<sources]
      \<and> columns fm = map Name names
      \<and> (\<forall>i<sources. \<forall>j<length names.
            entry (vals fm) i j = mult np (entry raw j i) (py_int np 1000000))"
proof -
  let ?fm = "\<lparr>index = map Pos [0..<snd (shape raw)], columns = map Name names,
              vals = ndarray_T (rmul np raw (py_int np 1000000))\<rparr>"
  have rows: "fst (shape raw) = length names" and cols: "snd (shape raw) = sources"
    using sh by simp_all
  have run: "forward_model np self hardware = Inr ?fm"
    by (rule forward_model_Inr[OF raw names rows])
  have steps: "?fm = dataframe_T
      (imul np ((Matrix raw)\<lparr>index := map Name names\<rparr>) (py_int np 1000000))"
    by (simp add: dataframe_T_def imul_def Matrix_def)
  have shp: "shape (vals ?fm) = (sources, length names)"
    by (simp add: shape_ndarray_T shape_rmul sh)
  have ent: "entry (vals ?fm) i j = mult np (entry raw j i) (py_int np 1000000)"
    if "i < sources" "j < length names" for i j
    using that wf by (simp add: entry_ndarray_T shape_rmul sh entry_rmul)
  have len: "length names = 14"
    by (rule electrode_names_length[OF names])
  have wfm: "wf_ndarray (vals ?fm)"
    by (simp add: wf_ndarray_T)
  have idx: "index ?fm = map Pos [0..<sources]"
    by (simp add: cols)
  have cl: "columns ?fm = map Name names"
    by simp
  have all: "\<forall>i<sources. \<forall>j<length names.
      entry (vals ?fm) i j = mult np (entry raw j i) (py_int np 1000000)"
    using ent by blast
  show ?thesis
    by (rule exI[of _ ?fm]) (intro conjI run steps shp len wfm idx cl all)
qed

theorem forward_model_construction_witness:
  "forwardmodel_spheres_reduced example_assets ''emotiv'' = Inr example_forward
   \<and> wf_ndarray example_forward
   \<and> electrode_names ''emotiv'' = Inr SBS2_ELECTRODES_EMOTIV
   \<and> shape example_forward = (length SBS2_ELECTRODES_EMOTIV, 2)
   \<and> forward_model exact example_assets ''emotiv'' =
       Inr \<lparr>index = [Pos 0, Pos 1], columns = map Name SBS2_ELECTRODES_EMOTIV,
            vals = example_F\<rparr>
   \<and> (\<exists>fm. forward_model exact example_assets ''emotiv'' = Inr fm
      \<and> fm = dataframe_T
               (imul exact ((Matrix example_forward)\<lparr>index := map Name SBS2_ELECTRODES_EMOTIV\<rparr>)
                  (py_int exact 1000000))
      \<and> shape (vals fm) = (2, length SBS2_ELECTRODES_EMOTIV)
      \<and> length SBS2_ELECTRODES_EMOTIV = 14
      \<and> wf_ndarray (vals fm)
      \<and> index fm = map Pos [0..<2]
      \<and> columns fm = map Name SBS2_ELECTRODES_EMOTIV
      \<and> (\<forall>i<2. \<forall>j<length SBS2_ELECTRODES_EMOTIV.
            entry (vals fm) i j = mult exact (entry example_forward j i) (py_int exact 1000000)))"
proof -
  have h1: "forwardmodel_spheres_reduced example_assets ''emotiv'' = Inr example_forward"
    by (simp add: example_assets_def in_hardware_dir_def)
  have h2: "wf_ndarray example_forward"
    by (rule wf_example_forward)
  have h3: "electrode_names ''emotiv'' = Inr SBS2_ELECTRODES_EMOTIV"
    by (simp add: electrode_names_def)
  have h4: "shape example_forward = (length SBS2_ELECTRODES_EMOTIV, 2)"
    by (simp add: example_forward_def SBS2_ELECTRODES_EMOTIV_def)
  from forward_model_construction[where np = exact, OF h1 h2 h3 h4] h1 h2 h3 h4
    forward_model_example
  show ?thesis
    by blast
qed

text \<open>
  C4, as stated, fails: the file is read before the hardware is checked, so for a name
  that has no directory the exception of the read comes out, not the ValueError of
  \<open>electrode_names\<close>.
\<close>

theorem forward_model_invalid_hardware_counterexample:
  "forward_model exact example_assets ''bogus'' = Inl (IOError ''No such file or directory'')
   \<and> forward_model exact example_assets ''bogus'' \<noteq>
       Inl (ValueError ''Wrong argument to model'')"
  by (simp add: forward_model_def example_assets_def in_hardware_dir_def bindE_def)

text \<open>
  C4, amended. For a hardware other than \<open>emotiv\<close> and \<open>emocap\<close>, \<open>forward_model\<close>
  fails: with the exception of the read when the file cannot be read, and with the
  ValueError of \<open>electrode_names\<close> when it can. For every hardware, an exception of
  the read is passed on unchanged.
\<close>

theorem forward_model_errors:
  "(hardware \<noteq> ''emotiv'' \<and> hardware \<noteq> ''emocap'' \<longrightarrow>
      forward_model np self hardware =
        (case forwardmodel_spheres_reduced self hardware of
           Inl e \<Rightarrow> Inl e
         | Inr raw \<Rightarrow> Inl (ValueError ''Wrong argument to model'')))
   \<and> (forwardmodel_spheres_reduced self hardware = Inl e \<longrightarrow>
        forward_model np self hardware = Inl e)"
  by (simp add: forward_model_def bindE_def electrode_names_def split: sum.splits)

theorem forward_model_errors_witness:
  "''bogus'' \<noteq> ''emotiv'' \<and> ''bogus'' \<noteq> ''emocap''
   \<and> forwardmodel_spheres_reduced example_assets ''bogus'' =
       Inl (IOError ''No such file or directory'')
   \<and> forward_model exact example_assets ''bogus'' = Inl (IOError ''No such file or directory'')
   \<and> forward_model exact every_dir_assets ''bogus'' =
       Inl (ValueError ''Wrong argument to model'')"
  using forward_model_errors[where np = exact and hardware = "''bogus''"
      and self = example_assets and e = "IOError ''No such file or directory''"]
    forward_model_errors[where np = exact and hardware = "''bogus''" and self = every_dir_assets]
  by (simp add: example_assets_def every_dir_assets_def in_hardware_dir_def in_any_dir_def)

section \<open>The inverse model\<close>

text \<open>
  C2. Where the forward model \<open>F\<close> is available, \<open>alpha\<close> is not zero, as it is not when
  \<open>alpha > 0\<close>, and \<open>pinv\<close> returns arrays of the transposed shape, the inverse model of
  the method \<open>minimumnorm\<close> is \<open>pinv(F\<^sup>t F + (beta / alpha) I) F\<^sup>t\<close>, with the identity of
  the size of the channel dimension, which is 14, and with no coherence matrix in it:
  it raises what \<open>pinv\<close> raises on that argument, and otherwise returns the product of
  what \<open>pinv\<close> returns and \<open>F\<^sup>t\<close>.
\<close>

theorem inverse_model_minimumnorm:
  assumes fm: "forward_model np self hardware = Inr fm"
    and pinv: "\<And>a p. wf_ndarray a \<Longrightarrow> pinv a = Inr p \<Longrightarrow>
                 shape p = (snd (shape a), fst (shape a))"
    and alpha: "\<not> is_zero np inv_alpha"
  shows "inverse_model np pinv self hardware ''minimumnorm'' inv_alpha inv_beta =
      (case pinv (add np (matmul np (ndarray_T (vals fm)) (vals fm))
                         (smul np (truediv np inv_beta inv_alpha)
                            (eye np (snd (shape (vals fm)))))) of
         Inl e \<Rightarrow> Inl e
       | Inr p \<Rightarrow>
           Inr \<lparr>index = columns fm, columns = map Pos [0..<fst (shape (vals fm))],
                vals = matmul np p (ndarray_T (vals fm))\<rparr>)
    \<and> snd (shape (vals fm)) = 14"
proof -
  from forward_model_InrD[OF fm] obtain raw names where
    names: "electrode_names hardware = Inr names" and
    rows: "fst (shape raw) = length names" and
    fm_eq: "fm = \<lparr>index = map Pos [0..<snd (shape raw)], columns = map Name names,
               vals = ndarray_T (rmul np raw (py_int np 1000000))\<rparr>"
    by blast
  have channels: "snd (shape (vals fm)) = 14"
    using names rows by (simp add: fm_eq shape_ndarray_T shape_rmul electrode_names_length)
  show ?thesis
    using minimumnorm_run[where inv_beta = inv_beta, OF fm pinv alpha] channels
    by (simp add: minimumnorm_Sigma_def)
qed

theorem inverse_model_minimumnorm_witness:
  "forward_model exact example_assets ''emotiv'' =
     Inr \<lparr>index = [Pos 0, Pos 1], columns = map Name SBS2_ELECTRODES_EMOTIV, vals = example_F\<rparr>
   \<and> (\<forall>a. pinv_diagonal a = Inr (diagonal_reciprocal a)
         \<and> shape (diagonal_reciprocal a) = (snd (shape a), fst (shape a)))
   \<and> \<not> is_zero exact 1
   \<and> inverse_model exact pinv_diagonal example_assets ''emotiv'' ''minimumnorm'' 1 2 =
       Inr \<lparr>index = map Name SBS2_ELECTRODES_EMOTIV, columns = [Pos 0, Pos 1],
            vals = \<lparr>shape = (14, 2),
                    data = [[1 / 4, 1 / 4], [1 / 4, - 1 / 4],
                            [0, 0], [0, 0], [0, 0], [0, 0], [0, 0], [0, 0],
                            [0, 0], [0, 0], [0, 0], [0, 0], [0, 0], [0, 0]]\<rparr>\<rparr>"
proof -
  have h2: "pinv_diagonal a = Inr (diagonal_reciprocal a)
      \<and> shape (diagonal_reciprocal a) = (snd (shape a), fst (shape a))" for a
    by (simp add: pinv_diagonal_def shape_diagonal_reciprocal)
  have h3: "\<not> is_zero exact 1"
    by (simp add: exact_simps)
  have c: "inverse_model exact pinv_diagonal example_assets ''emotiv'' ''minimumnorm'' 1 2 =
      Inr \<lparr>index = map Name SBS2_ELECTRODES_EMOTIV, columns = [Pos 0, Pos 1],
           vals = matmul exact (diagonal_reciprocal (minimumnorm_Sigma exact example_F 1 2))
                    (ndarray_T example_F)\<rparr>"
    using inverse_model_minimumnorm[where pinv = pinv_diagonal and inv_beta = 2,
        OF forward_model_example pinv_diagonal_shape h3]
    by (simp add: pinv_diagonal_def minimumnorm_Sigma_def upt_2 shape_example_F)
  show ?thesis
    using forward_model_example h2 h3 c by (simp add: minimumnorm_example)
qed

text \<open>
  C1. Where the forward model \<open>F\<close> and the spatial coherence \<open>L\<close> are available, \<open>L\<close> is
  square of the size of the source dimension of \<open>F\<close>, and \<open>pinv\<close> returns arrays of the
  transposed shape, the inverse model of the method \<open>LORETA\<close> is
  \<open>alpha (pinv(alpha (F\<^sup>t (L F)) + beta I) (L F)\<^sup>t)\<close>, with the identity of the size of the
  channel dimension, which is 14: it raises what \<open>pinv\<close> raises on that argument, and
  otherwise returns \<open>alpha\<close> times the product of what \<open>pinv\<close> returns and \<open>(L F)\<^sup>t\<close>.
  \<open>alpha\<close> occurs twice: inside the argument of \<open>pinv\<close> and as a factor of the result.
  This holds for all \<open>alpha\<close> and \<open>beta\<close>, those with \<open>alpha > 0\<close> and \<open>beta \<ge> 0\<close> among them.
\<close>

theorem inverse_model_LORETA:
  assumes fm: "forward_model np self hardware = Inr fm"
    and sc: "spatial_coherence self hardware = Inr sc"
    and shL: "shape (vals sc) = (fst (shape (vals fm)), fst (shape (vals fm)))"
    and pinv: "\<And>a p. wf_ndarray a \<Longrightarrow> pinv a = Inr p \<Longrightarrow>
                 shape p = (snd (shape a), fst (shape a))"
  shows "inverse_model np pinv self hardware ''LORETA'' inv_alpha inv_beta =
      (case pinv (add np (smul np inv_alpha
                            (matmul np (ndarray_T (vals fm)) (matmul np (vals sc) (vals fm))))
                         (smul np inv_beta (eye np (snd (shape (vals fm)))))) of
         Inl e \<Rightarrow> Inl e
       | Inr p \<Rightarrow>
           Inr \<lparr>index = columns fm, columns = map Pos [0..<fst (shape (vals fm))],
                vals = smul np inv_alpha
                         (matmul np p (ndarray_T (matmul np (vals sc) (vals fm))))\<rparr>)
    \<and> snd (shape (vals fm)) = 14"
proof -
  from forward_model_InrD[OF fm] obtain raw names where
    names: "electrode_names hardware = Inr names" and
    rows: "fst (shape raw) = length names" and
    fm_eq: "fm = \<lparr>index = map Pos [0..<snd (shape raw)], columns = map Name names,
               vals = ndarray_T (rmul np raw (py_int np 1000000))\<rparr>"
    by blast
  have channels: "snd (shape (vals fm)) = 14"
    using names rows by (simp add: fm_eq shape_ndarray_T shape_rmul electrode_names_length)
  show ?thesis
    using LORETA_run[where inv_alpha = inv_alpha and inv_beta = inv_beta, OF fm sc shL pinv]
      channels
    by (simp add: LORETA_Sigma_inv_def)
qed

theorem inverse_model_LORETA_witness:
  "forward_model exact example_assets ''emotiv'' =
     Inr \<lparr>index = [Pos 0, Pos 1], columns = map Name SBS2_ELECTRODES_EMOTIV, vals = example_F\<rparr>
   \<and> spatial_coherence example_assets ''emotiv'' =
     Inr \<lparr>index = [Pos 0, Pos 1], columns = [Pos 0, Pos 1], vals = example_coherence\<rparr>
   \<and> shape example_coherence = (fst (shape example_F), fst (shape example_F))
   \<and> (\<forall>a. pinv_diagonal a = Inr (diagonal_reciprocal a)
         \<and> shape (diagonal_reciprocal a) = (snd (shape a), fst (shape a)))
   \<and> inverse_model exact pinv_diagonal example_assets ''emotiv'' ''LORETA'' (1 / 2) 1 =
       Inr \<lparr>index = map Name SBS2_ELECTRODES_EMOTIV, columns = [Pos 0, Pos 1],
            vals = \<lparr>shape = (14, 2),
                    data = [[3 / 8, 3 / 8], [1 / 4, - 1 / 4],
                            [0, 0], [0, 0], [0, 0], [0, 0], [0, 0], [0, 0],
                            [0, 0], [0, 0], [0, 0], [0, 0], [0, 0], [0, 0]]\<rparr>\<rparr>"
proof -
  have h3: "shape example_coherence = (fst (shape example_F), fst (shape example_F))"
    by (simp add: shape_example_coherence shape_example_F)
  have h3': "shape (vals \<lparr>index = [Pos 0, Pos 1], columns = [Pos 0, Pos 1],
                         vals = example_coherence\<rparr>) =
      (fst (shape (vals \<lparr>index = [Pos 0, Pos 1], columns = map Name SBS2_ELECTRODES_EMOTIV,
                         vals = example_F\<rparr>)),
       fst (shape (vals \<lparr>index = [Pos 0, Pos 1], columns = map Name SBS2_ELECTRODES_EMOTIV,
                         vals = example_F\<rparr>)))"
    using h3 by simp
  have h4: "pinv_diagonal a = Inr (diagonal_reciprocal a)
      \<and> shape (diagonal_reciprocal a) = (snd (shape a), fst (shape a))" for a
    by (simp add: pinv_diagonal_def shape_diagonal_reciprocal)
  have c: "inverse_model exact pinv_diagonal example_assets ''emotiv'' ''LORETA'' (1 / 2) 1 =
      Inr \<lparr>index = map Name SBS2_ELECTRODES_EMOTIV, columns = [Pos 0, Pos 1],
           vals = smul exact (1 / 2)
             (matmul exact
                (diagonal_reciprocal
                   (LORETA_Sigma_inv exact example_F example_coherence (1 / 2) 1))
                (ndarray_T (matmul exact example_coherence example_F)))\<rparr>"
    using inverse_model_LORETA[where pinv = pinv_diagonal and inv_alpha = "1 / 2"
        and inv_beta = 1,
        OF forward_model_example spatial_coherence_example h3' pinv_diagonal_shape]
    by (simp add: pinv_diagonal_def LORETA_Sigma_inv_def upt_2 shape_example_F)
  show ?thesis
    using forward_model_example spatial_coherence_example h3 h4 c
    by (simp add: LORETA_example)
qed

text \<open>
  C6. Whenever \<open>inverse_model\<close> returns a matrix, its row labels are the electrode names
  of the hardware, one by one in the order of the catalogue.
\<close>

theorem inverse_model_row_labels:
  assumes "inverse_model np pinv self hardware method inv_alpha inv_beta = Inr im"
  shows "\<exists>names. electrode_names hardware = Inr names \<and> index im = map Name names"
  using assms
  by (auto simp: inverse_model_def bindE_def Let_def set_index_def Matrix_def
      split: sum.splits if_splits)

theorem inverse_model_row_labels_witness:
  "(\<exists>im. inverse_model exact pinv_diagonal example_assets ''emotiv'' ''LORETA'' (1 / 2) 1 = Inr im
      \<and> electrode_names ''emotiv'' =
          Inr [''P7'', ''FC6'', ''T7'', ''P8'', ''O2'', ''O1'', ''FC5'',
               ''F3'', ''F4'', ''T8'', ''F7'', ''F8'', ''AF4'', ''AF3'']
      \<and> index im =
          [Name ''P7'', Name ''FC6'', Name ''T7'', Name ''P8'', Name ''O2'', Name ''O1'',
           Name ''FC5'', Name ''F3'', Name ''F4'', Name ''T8'', Name ''F7'', Name ''F8'',
           Name ''AF4'', Name ''AF3''])"
  using inverse_model_row_labels[OF inverse_model_example_LORETA] inverse_model_example_LORETA
  by (simp add: electrode_names_def SBS2_ELECTRODES_EMOTIV_def)

text \<open>
  C8. A method other than \<open>minimumnorm\<close> and \<open>LORETA\<close> makes \<open>inverse_model\<close> raise
  ValueError, once the forward model has been obtained; an exception of \<open>forward_model\<close>
  is passed on unchanged, whatever the method, and so is an exception of
  \<open>spatial_coherence\<close> under \<open>LORETA\<close>. The forward model is computed before the method
  is looked at, so its exception is the one that comes out when both are at fault.
\<close>

theorem inverse_model_errors:
  "(method \<noteq> ''minimumnorm'' \<and> method \<noteq> ''LORETA'' \<longrightarrow>
      inverse_model np pinv self hardware method inv_alpha inv_beta =
        (case forward_model np self hardware of
           Inl e \<Rightarrow> Inl e
         | Inr fm \<Rightarrow> Inl (ValueError ''Wrong method'')))
   \<and> (forward_model np self hardware = Inl e \<longrightarrow>
        inverse_model np pinv self hardware method inv_alpha inv_beta = Inl e)
   \<and> (forward_model np self hardware = Inr fm \<and> spatial_coherence self hardware = Inl e \<longrightarrow>
        inverse_model np pinv self hardware ''LORETA'' inv_alpha inv_beta = Inl e)"
  by (simp add: inverse_model_def bindE_def Let_def split: sum.splits)

theorem inverse_model_errors_witness:
  "''bogus'' \<noteq> ''minimumnorm'' \<and> ''bogus'' \<noteq> ''LORETA''
   \<and> inverse_model exact pinv_diagonal example_assets ''emotiv'' ''bogus'' (1 / 100)
       (3781 / 10000) = Inl (ValueError ''Wrong method'')
   \<and> forward_model exact empty_assets ''emotiv'' = Inl (IOError ''No such file or directory'')
   \<and> inverse_model exact pinv_diagonal empty_assets ''emotiv'' ''minimumnorm'' (1 / 100)
       (3781 / 10000) = Inl (IOError ''No such file or directory'')
   \<and> spatial_coherence forward_only_assets ''emotiv'' =
       Inl (IOError ''No such file or directory'')
   \<and> inverse_model exact pinv_diagonal forward_only_assets ''emotiv'' ''LORETA'' (1 / 100)
       (3781 / 10000) = Inl (IOError ''No such file or directory'')"
proof -
  have f1: "forward_model exact empty_assets ''emotiv'' =
      Inl (IOError ''No such file or directory'')"
    by (simp add: forward_model_def empty_assets_def no_file_def bindE_def)
  have f2: "forward_model exact forward_only_assets ''emotiv'' =
      forward_model exact example_assets ''emotiv''"
    by (simp add: forward_model_def forward_only_assets_def example_assets_def)
  have f3: "spatial_coherence forward_only_assets ''emotiv'' =
      Inl (IOError ''No such file or directory'')"
    by (simp add: spatial_coherence_def forward_only_assets_def no_file_def bindE_def)
  show ?thesis
    using inverse_model_errors[of "''bogus''" exact pinv_diagonal example_assets "''emotiv''"
        "1 / 100" "3781 / 10000"]
      inverse_model_errors[of "''minimumnorm''" exact pinv_diagonal empty_assets "''emotiv''"
        "1 / 100" "3781 / 10000" "IOError ''No such file or directory''"]
      inverse_model_errors[of "''LORETA''" exact pinv_diagonal forward_only_assets "''emotiv''"
        "1 / 100" "3781 / 10000" "IOError ''No such file or directory''"]
      f1 f2 f3 forward_model_example
    by simp
qed

text \<open>
  C10. Under \<open>minimumnorm\<close> the result does not depend on the coherence files: two data
  directories with the same forward-model files give the same result, an exception or a
  matrix, whatever their coherence files hold and whether they can be read at all.
\<close>

theorem minimumnorm_ignores_coherence:
  assumes "forwardmodel_spheres_reduced self1 = forwardmodel_spheres_reduced self2"
  shows "inverse_model np pinv self1 hardware ''minimumnorm'' inv_alpha inv_beta =
         inverse_model np pinv self2 hardware ''minimumnorm'' inv_alpha inv_beta"
proof -
  have "forward_model np self1 hardware = forward_model np self2 hardware"
    using assms by (simp add: forward_model_def)
  then show ?thesis
    by (simp add: inverse_model_def)
qed

theorem minimumnorm_ignores_coherence_witness:
  "forwardmodel_spheres_reduced example_assets = forwardmodel_spheres_reduced forward_only_assets
   \<and> spatialCoherenceSmooth0_2_reduced example_assets ''emotiv'' = Inr example_coherence
   \<and> spatialCoherenceSmooth0_2_reduced forward_only_assets ''emotiv'' =
       Inl (IOError ''No such file or directory'')
   \<and> inverse_model exact pinv_diagonal example_assets ''emotiv'' ''minimumnorm'' 1 2 =
     inverse_model exact pinv_diagonal forward_only_assets ''emotiv'' ''minimumnorm'' 1 2
   \<and> isl (inverse_model exact pinv_diagonal forward_only_assets ''emotiv'' ''minimumnorm'' 1 2)
       = False"
proof -
  have h: "forwardmodel_spheres_reduced example_assets =
      forwardmodel_spheres_reduced forward_only_assets"
    by (simp add: example_assets_def forward_only_assets_def)
  from minimumnorm_ignores_coherence[where np = exact and pinv = pinv_diagonal
      and hardware = "''emotiv''" and inv_alpha = 1 and inv_beta = 2, OF h] h
    inverse_model_example_minimumnorm
  show ?thesis
    by (simp add: example_assets_def forward_only_assets_def in_hardware_dir_def no_file_def)
qed

section \<open>Shapes\<close>

lemma wf_Matrix: "wf_ndarray a \<Longrightarrow> wf_ndarray (vals (Matrix a))"
  by (simp add: Matrix_def)

lemma wf_zeros: "wf_ndarray (zeros r c)"
  by (simp add: zeros_def wf_ndarray_def list_all_iff)

lemma run_shape:
  assumes run: "r = (case pinv S of Inl e \<Rightarrow> Inl e | Inr p \<Rightarrow> Inr (mk p))"
    and out: "\<And>p. pinv S = Inr p \<Longrightarrow> shape (vals (mk p)) = d \<and> wf_ndarray (vals (mk p))"
  shows "(\<forall>im. r = Inr im \<longrightarrow> shape (vals im) = d \<and> wf_ndarray (vals im))
    \<and> (case pinv S of
          Inl e \<Rightarrow> r = Inl e
        | Inr p \<Rightarrow> (\<exists>im. r = Inr im \<and> shape (vals im) = d \<and> wf_ndarray (vals im)))"
  using run out by (cases "pinv S") auto

lemma shapes_for_sources:
  assumes hw: "hardware = ''emotiv'' \<or> hardware = ''emocap''"
    and raw: "forwardmodel_spheres_reduced self hardware = Inr raw"
    and sh_raw: "shape raw = (14, n)"
    and K: "spatialCoherenceSmooth0_2_reduced self hardware = Inr K"
    and wf_K: "wf_ndarray K"
    and sh_K: "shape K = (n, n)"
    and Kinv: "spatialCoherenceSmooth0_2_reduced_inverse self hardware = Inr Kinv"
    and wf_Kinv: "wf_ndarray Kinv"
    and sh_Kinv: "shape Kinv = (n, n)"
    and pinv: "\<And>a p. wf_ndarray a \<Longrightarrow> pinv a = Inr p \<Longrightarrow>
                 shape p = (snd (shape a), fst (shape a))"
    and valid: "method = ''minimumnorm'' \<or> method = ''LORETA''"
    and alpha: "\<not> is_zero np inv_alpha"
  shows "\<exists>names fm sc isc S.
      electrode_names hardware = Inr names \<and> length names = 14
      \<and> forward_model np self hardware = Inr fm
      \<and> shape (vals fm) = (n, 14) \<and> wf_ndarray (vals fm)
      \<and> spatial_coherence self hardware = Inr sc
      \<and> shape (vals sc) = (n, n) \<and> wf_ndarray (vals sc)
      \<and> inverse_spatial_coherence self hardware = Inr isc
      \<and> shape (vals isc) = (n, n) \<and> wf_ndarray (vals isc)
      \<and> (\<forall>im. inverse_model np pinv self hardware method inv_alpha inv_beta = Inr im \<longrightarrow>
            shape (vals im) = (14, n) \<and> wf_ndarray (vals im))
      \<and> wf_ndarray S \<and> shape S = (14, 14)
      \<and> (case pinv S of
            Inl e \<Rightarrow> inverse_model np pinv self hardware method inv_alpha inv_beta = Inl e
          | Inr p \<Rightarrow>
              (\<exists>im. inverse_model np pinv self hardware method inv_alpha inv_beta = Inr im
                 \<and> shape (vals im) = (14, n) \<and> wf_ndarray (vals im)))"
proof -
  from hw obtain names where names: "electrode_names hardware = Inr names"
    by (auto simp: electrode_names_def)
  have len: "length names = 14"
    by (rule electrode_names_length[OF names])
  let ?fm = "\<lparr>index = map Pos [0..<snd (shape raw)], columns = map Name names,
              vals = ndarray_T (rmul np raw (py_int np 1000000))\<rparr>"
  let ?F = "vals ?fm"
  have fm: "forward_model np self hardware = Inr ?fm"
    by (rule forward_model_Inr[OF raw names]) (simp add: sh_raw len)
  have sh_fm: "shape ?F = (n, 14)"
    by (simp add: shape_ndarray_T shape_rmul sh_raw)
  have wf_fm: "wf_ndarray ?F"
    by (simp add: wf_ndarray_T)
  have sc: "spatial_coherence self hardware = Inr (Matrix K)"
    by (simp add: spatial_coherence_def K bindE_def)
  have isc: "inverse_spatial_coherence self hardware = Inr (Matrix Kinv)"
    by (simp add: inverse_spatial_coherence_def Kinv bindE_def)
  have sh_sc: "shape (vals (Matrix K)) = (n, n)"
    and sh_isc: "shape (vals (Matrix Kinv)) = (n, n)"
    by (simp_all add: Matrix_def sh_K sh_Kinv)
  have wf_sc: "wf_ndarray (vals (Matrix K))" and wf_isc: "wf_ndarray (vals (Matrix Kinv))"
    by (simp_all add: wf_Matrix wf_K wf_Kinv)
  have "\<exists>S. wf_ndarray S \<and> shape S = (14, 14)
      \<and> (\<forall>im. inverse_model np pinv self hardware method inv_alpha inv_beta = Inr im \<longrightarrow>
            shape (vals im) = (14, n) \<and> wf_ndarray (vals im))
      \<and> (case pinv S of
            Inl e \<Rightarrow> inverse_model np pinv self hardware method inv_alpha inv_beta = Inl e
          | Inr p \<Rightarrow>
              (\<exists>im. inverse_model np pinv self hardware method inv_alpha inv_beta = Inr im
                 \<and> shape (vals im) = (14, n) \<and> wf_ndarray (vals im)))"
  proof (cases "method = ''minimumnorm''")
    case True
    let ?S = "minimumnorm_Sigma np ?F inv_alpha inv_beta"
    have wf_S: "wf_ndarray ?S"
      by (simp add: minimumnorm_Sigma_def wf_add)
    have sh_S: "shape ?S = (14, 14)"
      by (simp add: minimumnorm_Sigma_def shape_add shape_matmul shape_ndarray_T shape_rmul
          sh_raw)
    have run: "inverse_model np pinv self hardware method inv_alpha inv_beta =
        (case pinv ?S of
           Inl e \<Rightarrow> Inl e
         | Inr p \<Rightarrow>
             Inr \<lparr>index = columns ?fm, columns = map Pos [0..<fst (shape ?F)],
                  vals = matmul np p (ndarray_T ?F)\<rparr>)"
      using minimumnorm_run[where inv_beta = inv_beta, OF fm pinv alpha] True by simp
    have out: "shape (vals \<lparr>index = columns ?fm, columns = map Pos [0..<fst (shape ?F)],
                  vals = matmul np p (ndarray_T ?F)\<rparr>) = (14, n)
        \<and> wf_ndarray (vals \<lparr>index = columns ?fm, columns = map Pos [0..<fst (shape ?F)],
                  vals = matmul np p (ndarray_T ?F)\<rparr>)"
      if "pinv ?S = Inr p" for p
    proof -
      have "shape p = (14, 14)"
        using pinv[OF wf_S that] sh_S by simp
      then show ?thesis
        by (simp add: shape_matmul shape_ndarray_T shape_rmul sh_raw wf_matmul)
    qed
    show ?thesis
      using run_shape[where pinv = pinv and S = "?S" and d = "(14, n)"
          and mk = "\<lambda>p. \<lparr>index = columns ?fm, columns = map Pos [0..<fst (shape ?F)],
                  vals = matmul np p (ndarray_T ?F)\<rparr>", OF run out] wf_S sh_S
      by blast
  next
    case False
    then have L: "method = ''LORETA''"
      using valid by simp
    let ?S = "LORETA_Sigma_inv np ?F (vals (Matrix K)) inv_alpha inv_beta"
    have shL: "shape (vals (Matrix K)) = (fst (shape ?F), fst (shape ?F))"
      using sh_sc sh_fm by simp
    have wf_S: "wf_ndarray ?S"
      by (simp add: LORETA_Sigma_inv_def wf_add)
    have sh_S: "shape ?S = (14, 14)"
      by (simp add: LORETA_Sigma_inv_def shape_add shape_smul shape_matmul shape_ndarray_T
          shape_rmul sh_raw)
    have run: "inverse_model np pinv self hardware method inv_alpha inv_beta =
        (case pinv ?S of
           Inl e \<Rightarrow> Inl e
         | Inr p \<Rightarrow>
             Inr \<lparr>index = columns ?fm, columns = map Pos [0..<fst (shape ?F)],
                  vals = smul np inv_alpha
                           (matmul np p (ndarray_T (matmul np (vals (Matrix K)) ?F)))\<rparr>)"
      using LORETA_run[where inv_alpha = inv_alpha and inv_beta = inv_beta,
          OF fm sc shL pinv] L by simp
    have out: "shape (vals \<lparr>index = columns ?fm, columns = map Pos [0..<fst (shape ?F)],
                  vals = smul np inv_alpha
                           (matmul np p (ndarray_T (matmul np (vals (Matrix K)) ?F)))\<rparr>)
          = (14, n)
        \<and> wf_ndarray (vals \<lparr>index = columns ?fm, columns = map Pos [0..<fst (shape ?F)],
                  vals = smul np inv_alpha
                           (matmul np p (ndarray_T (matmul np (vals (Matrix K)) ?F)))\<rparr>)"
      if "pinv ?S = Inr p" for p
    proof -
      have "shape p = (14, 14)"
        using pinv[OF wf_S that] sh_S by simp
      then show ?thesis
        by (simp add: shape_matmul shape_smul shape_ndarray_T Matrix_def sh_K wf_matmul wf_smul)
    qed
    show ?thesis
      using run_shape[where pinv = pinv and S = "?S" and d = "(14, n)"
          and mk = "\<lambda>p. \<lparr>index = columns ?fm, columns = map Pos [0..<fst (shape ?F)],
                  vals = smul np inv_alpha
                           (matmul np p (ndarray_T (matmul np (vals (Matrix K)) ?F)))\<rparr>",
          OF run out] wf_S sh_S
      by blast
  qed
  then obtain S where wf_S: "wf_ndarray S" and sh_S: "shape S = (14, 14)"
    and cond: "\<forall>im. inverse_model np pinv self hardware method inv_alpha inv_beta = Inr im \<longrightarrow>
      shape (vals im) = (14, n) \<and> wf_ndarray (vals im)"
    and total: "case pinv S of
        Inl e \<Rightarrow> inverse_model np pinv self hardware method inv_alpha inv_beta = Inl e
      | Inr p \<Rightarrow>
          (\<exists>im. inverse_model np pinv self hardware method inv_alpha inv_beta = Inr im
             \<and> shape (vals im) = (14, n) \<and> wf_ndarray (vals im))"
    by blast
  show ?thesis
    using names len fm sh_fm wf_fm sc sh_sc wf_sc isc sh_isc wf_isc cond wf_S sh_S total
    by blast
qed

text \<open>
  C5. With files of the shapes of the reference dataset, a forward-model file of 14 rows
  and 1028 columns and two coherence files of 1028 rows and columns, for a supported
  hardware: there are 14 electrode names, the forward model has shape (1028, 14), the
  spatial coherence and its inverse have shape (1028, 1028), and every matrix that the
  inverse model returns, under either method, has shape (14, 1028). The inverse model
  returns one whenever \<open>pinv\<close> returns on its argument, a matrix of 14 rows and columns,
  and raises what \<open>pinv\<close> raises otherwise. \<open>alpha\<close> is not zero, as it is not when
  \<open>alpha > 0\<close>.
\<close>

theorem shape_invariants:
  assumes hw: "hardware = ''emotiv'' \<or> hardware = ''emocap''"
    and raw: "forwardmodel_spheres_reduced self hardware = Inr raw"
    and sh_raw: "shape raw = (14, 1028)"
    and K: "spatialCoherenceSmooth0_2_reduced self hardware = Inr K"
    and wf_K: "wf_ndarray K"
    and sh_K: "shape K = (1028, 1028)"
    and Kinv: "spatialCoherenceSmooth0_2_reduced_inverse self hardware = Inr Kinv"
    and wf_Kinv: "wf_ndarray Kinv"
    and sh_Kinv: "shape Kinv = (1028, 1028)"
    and pinv: "\<And>a p. wf_ndarray a \<Longrightarrow> pinv a = Inr p \<Longrightarrow>
                 shape p = (snd (shape a), fst (shape a))"
    and valid: "method = ''minimumnorm'' \<or> method = ''LORETA''"
    and alpha: "\<not> is_zero np inv_alpha"
  shows "\<exists>names fm sc isc S.
      electrode_names hardware = Inr names \<and> length names = 14
      \<and> forward_model np self hardware = Inr fm
      \<and> shape (vals fm) = (1028, 14) \<and> wf_ndarray (vals fm)
      \<and> spatial_coherence self hardware = Inr sc
      \<and> shape (vals sc) = (1028, 1028) \<and> wf_ndarray (vals sc)
      \<and> inverse_spatial_coherence self hardware = Inr isc
      \<and> shape (vals isc) = (1028, 1028) \<and> wf_ndarray (vals isc)
      \<and> (\<forall>im. inverse_model np pinv self hardware method inv_alpha inv_beta = Inr im \<longrightarrow>
            shape (vals im) = (14, 1028) \<and> wf_ndarray (vals im))
      \<and> wf_ndarray S \<and> shape S = (14, 14)
      \<and> (case pinv S of
            Inl e \<Rightarrow> inverse_model np pinv self hardware method inv_alpha inv_beta = Inl e
          | Inr p \<Rightarrow>
              (\<exists>im. inverse_model np pinv self hardware method inv_alpha inv_beta = Inr im
                 \<and> shape (vals im) = (14, 1028) \<and> wf_ndarray (vals im)))"
  by (rule shapes_for_sources[OF hw raw sh_raw K wf_K sh_K Kinv wf_Kinv sh_Kinv pinv valid alpha])

theorem shape_invariants_witness:
  "(''emotiv'' = ''emotiv'' \<or> ''emotiv'' = ''emocap'')
   \<and> forwardmodel_spheres_reduced reference_shaped_assets ''emotiv'' = Inr (zeros 14 1028)
   \<and> shape (zeros 14 1028) = (14, 1028)
   \<and> spatialCoherenceSmooth0_2_reduced reference_shaped_assets ''emotiv'' = Inr (zeros 1028 1028)
   \<and> spatialCoherenceSmooth0_2_reduced_inverse reference_shaped_assets ''emotiv'' =
       Inr (zeros 1028 1028)
   \<and> wf_ndarray (zeros 1028 1028)
   \<and> shape (zeros 1028 1028) = (1028, 1028)
   \<and> (\<forall>a. pinv_diagonal a = Inr (diagonal_reciprocal a)
         \<and> shape (diagonal_reciprocal a) = (snd (shape a), fst (shape a)))
   \<and> (''minimumnorm'' = ''minimumnorm'' \<or> ''minimumnorm'' = ''LORETA'')
   \<and> \<not> is_zero exact (1 / 100)
   \<and> (\<exists>fm sc isc im.
      electrode_names ''emotiv'' = Inr SBS2_ELECTRODES_EMOTIV
      \<and> length SBS2_ELECTRODES_EMOTIV = 14
      \<and> forward_model exact reference_shaped_assets ''emotiv'' = Inr fm
      \<and> shape (vals fm) = (1028, 14) \<and> wf_ndarray (vals fm)
      \<and> spatial_coherence reference_shaped_assets ''emotiv'' = Inr sc
      \<and> shape (vals sc) = (1028, 1028) \<and> wf_ndarray (vals sc)
      \<and> inverse_spatial_coherence reference_shaped_assets ''emotiv'' = Inr isc
      \<and> shape (vals isc) = (1028, 1028) \<and> wf_ndarray (vals isc)
      \<and> inverse_model exact pinv_diagonal reference_shaped_assets ''emotiv'' ''minimumnorm''
            (1 / 100) (3781 / 10000) = Inr im
      \<and> shape (vals im) = (14, 1028) \<and> wf_ndarray (vals im))"
proof -
  have h1: "''emotiv'' = ''emotiv'' \<or> ''emotiv'' = ''emocap''"
    by simp
  have h2: "forwardmodel_spheres_reduced reference_shaped_assets ''emotiv'' = Inr (zeros 14 1028)"
    by (simp add: reference_shaped_assets_def in_hardware_dir_def)
  have h3: "shape (zeros 14 1028) = (14, 1028)"
    by (simp add: zeros_def)
  have h4: "spatialCoherenceSmooth0_2_reduced reference_shaped_assets ''emotiv'' =
      Inr (zeros 1028 1028)"
    by (simp add: reference_shaped_assets_def in_hardware_dir_def)
  have h5: "spatialCoherenceSmooth0_2_reduced_inverse reference_shaped_assets ''emotiv'' =
      Inr (zeros 1028 1028)"
    by (simp add: reference_shaped_assets_def in_hardware_dir_def)
  have h6: "shape (zeros 1028 1028) = (1028, 1028)"
    by (simp add: zeros_def)
  have h6': "wf_ndarray (zeros 1028 1028)"
    by (rule wf_zeros)
  have h7: "pinv_diagonal a = Inr (diagonal_reciprocal a)
      \<and> shape (diagonal_reciprocal a) = (snd (shape a), fst (shape a))" for a
    by (simp add: pinv_diagonal_def shape_diagonal_reciprocal)
  have h8: "''minimumnorm'' = ''minimumnorm'' \<or> ''minimumnorm'' = ''LORETA''"
    by simp
  have h9: "\<not> is_zero exact (1 / 100)"
    by (simp add: exact_simps)
  have names: "electrode_names ''emotiv'' = Inr SBS2_ELECTRODES_EMOTIV"
    by (simp add: electrode_names_def)
  have c: "\<exists>fm sc isc im.
      electrode_names ''emotiv'' = Inr SBS2_ELECTRODES_EMOTIV
      \<and> length SBS2_ELECTRODES_EMOTIV = 14
      \<and> forward_model exact reference_shaped_assets ''emotiv'' = Inr fm
      \<and> shape (vals fm) = (1028, 14) \<and> wf_ndarray (vals fm)
      \<and> spatial_coherence reference_shaped_assets ''emotiv'' = Inr sc
      \<and> shape (vals sc) = (1028, 1028) \<and> wf_ndarray (vals sc)
      \<and> inverse_spatial_coherence reference_shaped_assets ''emotiv'' = Inr isc
      \<and> shape (vals isc) = (1028, 1028) \<and> wf_ndarray (vals isc)
      \<and> inverse_model exact pinv_diagonal reference_shaped_assets ''emotiv'' ''minimumnorm''
            (1 / 100) (3781 / 10000) = Inr im
      \<and> shape (vals im) = (14, 1028) \<and> wf_ndarray (vals im)"
    using shape_invariants[where np = exact and pinv = pinv_diagonal
        and inv_alpha = "1 / 100" and inv_beta = "3781 / 10000",
        OF h1 h2 h3 h4 h6' h6 h5 h6' h6 pinv_diagonal_shape h8 h9] names
    by (auto simp: pinv_diagonal_def)
  show ?thesis
    using h1 h2 h3 h4 h5 h6 h6' h7 h8 h9 c by blast
qed

section \<open>Overflow and wrap-around\<close>

text \<open>
  What the theorems above say in the machine arithmetic. The product of an int64 entry
  and 1000000 wraps around, that of a float64 entry becomes an infinity, and this is
  the entry of the forward model.
\<close>

lemma wrap64_example: "wrap64 (10000000000000 * 1000000) = - 8446744073709551616"
  by (simp add: wrap64_def)

lemma forward_model_int64_wraps:
  "forward_model machine (forward_file_assets int64_forward) ''emotiv'' =
     Inr \<lparr>index = [Pos 0], columns = map Name SBS2_ELECTRODES_EMOTIV,
          vals = \<lparr>shape = (1, 14),
                  data = [[Int64 (- 8446744073709551616), Int64 3000000, Int64 0, Int64 0,
                           Int64 0, Int64 0, Int64 0, Int64 0, Int64 0, Int64 0, Int64 0,
                           Int64 0, Int64 0, Int64 0]]\<rparr>\<rparr>"
  by (simp add: forward_model_def forward_file_assets_def in_hardware_dir_def int64_forward_def
      bindE_def electrode_names_def set_index_def Matrix_def imul_def dataframe_T_def
      ndarray_T_def rmul_def of_fun_def entry_def SBS2_ELECTRODES_EMOTIV_def machine_def
      wrap64_def upt_14)

lemma overflow_example: "overflow (10 ^ 305 * 1000000) = PInf"
  by (simp add: overflow_def)

lemma forward_model_float64_overflows:
  "forward_model machine (forward_file_assets large_forward) ''emotiv'' =
     Inr \<lparr>index = [Pos 0], columns = map Name SBS2_ELECTRODES_EMOTIV,
          vals = \<lparr>shape = (1, 14),
                  data = [[Float64 PInf, Float64 (Fin 3000000), Float64 (Fin 0),
                           Float64 (Fin 0), Float64 (Fin 0), Float64 (Fin 0), Float64 (Fin 0),
                           Float64 (Fin 0), Float64 (Fin 0), Float64 (Fin 0), Float64 (Fin 0),
                           Float64 (Fin 0), Float64 (Fin 0), Float64 (Fin 0)]]\<rparr>\<rparr>"
  by (simp add: forward_model_def forward_file_assets_def in_hardware_dir_def large_forward_def
      bindE_def electrode_names_def set_index_def Matrix_def imul_def dataframe_T_def
      ndarray_T_def rmul_def of_fun_def entry_def SBS2_ELECTRODES_EMOTIV_def machine_def
      overflow_def upt_14)

text \<open>
  With \<open>alpha = 1e-200\<close> and \<open>beta = 1e200\<close> the quotient \<open>beta / alpha\<close> is an infinity,
  the infinity times the zeros of the identity is not a number, and a pseudo-inverse that
  checks its argument raises: the inverse model raises with it, whatever the forward
  model holds.
\<close>

lemma fadd_NaN_right: "fadd x NaN = NaN"
  by (cases x) simp_all

lemma machine_add_NaN_right: "machine_add x (Float64 NaN) = Float64 NaN"
  by (cases x) (simp_all add: fadd_NaN_right)

lemma mult_machine: "mult machine x y = machine_mult x y"
  by (simp add: machine_def)

lemma addition_machine: "addition machine x y = machine_add x y"
  by (simp add: machine_def)

lemma float_zero_machine: "float_zero machine = Float64 (Fin 0)"
  by (simp add: machine_def)

lemma float_one_machine: "float_one machine = Float64 (Fin 1)"
  by (simp add: machine_def)

lemma quotient_overflows: "py_div machine beta_1e200 alpha_1e_200 = Inr (Float64 PInf)"
  by (simp add: py_div_def machine_def overflow_def beta_1e200_def alpha_1e_200_def)

lemma minimumnorm_overflow_raises:
  assumes fm: "forward_model machine self hardware = Inr fm"
  shows "inverse_model machine (pinv_checked p) self hardware ''minimumnorm''
           alpha_1e_200 beta_1e200 =
         Inl (ValueError ''array must not contain infs or NaNs'')"
proof -
  from forward_model_InrD[OF fm] obtain raw names where
    names: "electrode_names hardware = Inr names" and
    rows: "fst (shape raw) = length names" and
    fm_eq: "fm = \<lparr>index = map Pos [0..<snd (shape raw)], columns = map Name names,
               vals = ndarray_T (rmul machine raw (py_int machine 1000000))\<rparr>"
    by blast
  let ?F = "vals fm"
  let ?G = "matmul machine (ndarray_T ?F) ?F"
  let ?J = "smul machine (Float64 PInf) (eye machine (snd (shape ?F)))"
  let ?S = "add machine ?G ?J"
  have channels: "snd (shape ?F) = 14"
    using names rows by (simp add: fm_eq shape_ndarray_T shape_rmul electrode_names_length)
  have shG: "shape ?G = (14, 14)"
    by (simp add: shape_matmul shape_ndarray_T channels)
  have "entry ?J 0 1 = mult machine (Float64 PInf) (entry (eye machine (snd (shape ?F))) 0 1)"
    by (rule entry_smul) (simp_all add: wf_eye shape_eye channels)
  also have "\<dots> = Float64 NaN"
    by (simp add: entry_eye channels mult_machine float_zero_machine)
  finally have J01: "entry ?J 0 1 = Float64 NaN" .
  have "entry ?S 0 1 = addition machine (entry ?G 0 1) (entry ?J 0 1)"
    by (rule entry_add) (simp_all add: shG)
  also have "\<dots> = Float64 NaN"
    using J01 by (simp add: addition_machine machine_add_NaN_right fadd_NaN_right)
  finally have S01: "data ?S ! 0 ! 1 = Float64 NaN"
    by (simp add: entry_def)
  have wfS: "wf_ndarray ?S"
    by (rule wf_add)
  have shS: "shape ?S = (14, 14)"
    by (simp add: shape_add shG)
  have len: "length (data ?S) = 14"
    using wfS shS by (simp add: wf_ndarray_def)
  have len0: "length (data ?S ! 0) = 14"
    using wfS shS len by (simp add: wf_ndarray_def list_all_length)
  have "\<not> list_all (list_all isfinite) (data ?S)"
  proof
    assume "list_all (list_all isfinite) (data ?S)"
    then have "list_all isfinite (data ?S ! 0)"
      using len by (simp add: list_all_length)
    then have "isfinite (data ?S ! 0 ! 1)"
      using len0 by (simp add: list_all_length)
    then show False
      using S01 by simp
  qed
  then have raises: "pinv_checked p ?S = Inl (ValueError ''array must not contain infs or NaNs'')"
    by (simp add: pinv_checked_def)
  have d1: "dot machine (ndarray_T ?F) ?F = Inr ?G"
    by (simp add: dot_def shape_ndarray_T)
  show ?thesis
    unfolding inverse_model_def
    by (simp add: fm bindE_def Let_def d1 quotient_overflows raises)
qed

text \<open>
  The forward model of the small directory is an instance, the numbers of the file being
  float64 numbers.
\<close>

lemma minimumnorm_overflow_example:
  "inverse_model machine (pinv_checked p) (forward_file_assets example_forward_float64)
     ''emotiv'' ''minimumnorm'' alpha_1e_200 beta_1e200 =
   Inl (ValueError ''array must not contain infs or NaNs'')"
proof -
  have names: "electrode_names ''emotiv'' = Inr SBS2_ELECTRODES_EMOTIV"
    by (simp add: electrode_names_def)
  have "forward_model machine (forward_file_assets example_forward_float64) ''emotiv'' =
      Inr \<lparr>index = map Pos [0..<snd (shape example_forward_float64)],
           columns = map Name SBS2_ELECTRODES_EMOTIV,
           vals = ndarray_T (rmul machine example_forward_float64 (py_int machine 1000000))\<rparr>"
    by (rule forward_model_Inr[OF _ names])
      (simp_all add: forward_file_assets_def in_hardware_dir_def example_forward_float64_def
        example_forward_def SBS2_ELECTRODES_EMOTIV_def)
  then show ?thesis
    by (rule minimumnorm_overflow_raises)
qed

text \<open>
  With \<open>alpha = 1e308\<close> the product \<open>alpha (F\<^sup>t (L F))\<close> of the small directory has an
  infinity, and the inverse model of the method \<open>LORETA\<close> raises in the same way.
\<close>

lemma inner_machine:
  "inner machine xs ys =
     foldl machine_add (Int64 0) (map (\<lambda>(x, y). machine_mult x y) (zip xs ys))"
  by (simp add: machine_def)

lemma py_int_machine: "py_int machine n = Int64 n"
  by (simp add: machine_def)

lemma wf_example_forward_float64: "wf_ndarray example_forward_float64"
  by (simp add: wf_ndarray_def example_forward_float64_def example_forward_def)

lemma LORETA_overflow_example:
  "inverse_model machine (pinv_checked p) float64_assets ''emotiv'' ''LORETA''
     alpha_1e308 (Float64 (Fin 1)) =
   Inl (ValueError ''array must not contain infs or NaNs'')"
proof -
  let ?raw = "example_forward_float64"
  let ?F = "ndarray_T (rmul machine ?raw (py_int machine 1000000))"
  let ?L = "example_coherence_float64"
  let ?FC = "matmul machine ?L ?F"
  let ?G = "matmul machine (ndarray_T ?F) ?FC"
  let ?S = "add machine (smul machine alpha_1e308 ?G)
              (smul machine (Float64 (Fin 1)) (eye machine (snd (shape ?F))))"
  have names: "electrode_names ''emotiv'' = Inr SBS2_ELECTRODES_EMOTIV"
    by (simp add: electrode_names_def)
  have sh_raw: "shape ?raw = (14, 2)"
    by (simp add: example_forward_float64_def example_forward_def)
  have sh_L: "shape ?L = (2, 2)"
    by (simp add: example_coherence_float64_def example_coherence_def)
  have fm: "forward_model machine float64_assets ''emotiv'' =
      Inr \<lparr>index = map Pos [0..<snd (shape ?raw)],
           columns = map Name SBS2_ELECTRODES_EMOTIV, vals = ?F\<rparr>"
    by (rule forward_model_Inr[OF _ names])
      (simp_all add: float64_assets_def in_hardware_dir_def sh_raw SBS2_ELECTRODES_EMOTIV_def)
  have sc: "spatial_coherence float64_assets ''emotiv'' = Inr (Matrix ?L)"
    by (simp add: spatial_coherence_def float64_assets_def in_hardware_dir_def bindE_def)
  have sh_F: "shape ?F = (2, 14)"
    by (simp add: shape_ndarray_T shape_rmul sh_raw)
  have F: "entry ?F i j = machine_mult (entry ?raw j i) (Int64 1000000)"
    if "i < 2" "j < 14" for i j
    using that
    by (simp add: entry_ndarray_T shape_rmul sh_raw entry_rmul wf_example_forward_float64
        mult_machine py_int_machine)
  have raw00: "entry ?raw 0 0 = Float64 (Fin (1 / 1000000))"
    and raw01: "entry ?raw 0 1 = Float64 (Fin (1 / 1000000))"
    by (simp_all add: entry_def example_forward_float64_def example_forward_def)
  have F00: "entry ?F 0 0 = Float64 (Fin 1)"
    using F[of 0 0] raw00 by (simp add: overflow_def)
  have F10: "entry ?F 1 0 = Float64 (Fin 1)"
    using F[of 1 0] raw01 by (simp add: overflow_def)
  have L00: "entry ?L 0 0 = Float64 (Fin 2)" and L01: "entry ?L 0 1 = Float64 (Fin 1)"
    and L10: "entry ?L 1 0 = Float64 (Fin 1)" and L11: "entry ?L 1 1 = Float64 (Fin 2)"
    by (simp_all add: entry_def example_coherence_float64_def example_coherence_def)
  have "entry ?FC 0 0 =
      inner machine (map (\<lambda>k. entry ?L 0 k) [0..<2]) (map (\<lambda>k. entry ?F k 0) [0..<2])"
    using entry_matmul[of 0 ?L 0 ?F machine] by (simp add: sh_L sh_F)
  then have FC00: "entry ?FC 0 0 = Float64 (Fin 3)"
    using F00 F10 L00 L01 by (simp add: inner_machine upt_2 overflow_def)
  have "entry ?FC 1 0 =
      inner machine (map (\<lambda>k. entry ?L 1 k) [0..<2]) (map (\<lambda>k. entry ?F k 0) [0..<2])"
    using entry_matmul[of 1 ?L 0 ?F machine] by (simp add: sh_L sh_F)
  then have FC10: "entry ?FC 1 0 = Float64 (Fin 3)"
    using F00 F10 L10 L11 by (simp add: inner_machine upt_2 overflow_def)
  have sh_FT: "shape (ndarray_T ?F) = (14, 2)"
    using sh_F by (simp add: shape_ndarray_T)
  have "entry ?G 0 0 =
      inner machine (map (\<lambda>k. entry (ndarray_T ?F) 0 k) [0..<2])
        (map (\<lambda>k. entry ?FC k 0) [0..<2])"
    using entry_matmul[of 0 "ndarray_T ?F" 0 ?FC machine]
    by (simp add: shape_matmul sh_FT sh_L sh_F)
  moreover have "entry (ndarray_T ?F) 0 0 = entry ?F 0 0"
    and "entry (ndarray_T ?F) 0 1 = entry ?F 1 0"
    using entry_ndarray_T[of 0 ?F 0] entry_ndarray_T[of 0 ?F 1] by (simp_all add: sh_F)
  ultimately have G00: "entry ?G 0 0 = Float64 (Fin 6)"
    using F00 F10 FC00 FC10 by (simp add: inner_machine upt_2 overflow_def)
  have sh_G: "shape ?G = (14, 14)"
    by (simp add: shape_matmul sh_FT sh_F)
  have "entry ?S 0 0 =
      addition machine (entry (smul machine alpha_1e308 ?G) 0 0)
        (entry (smul machine (Float64 (Fin 1)) (eye machine (snd (shape ?F)))) 0 0)"
    by (rule entry_add) (simp_all add: shape_smul sh_G)
  also have "entry (smul machine alpha_1e308 ?G) 0 0 = mult machine alpha_1e308 (entry ?G 0 0)"
    by (rule entry_smul) (simp_all add: wf_matmul sh_G)
  also have "entry (smul machine (Float64 (Fin 1)) (eye machine (snd (shape ?F)))) 0 0 =
      mult machine (Float64 (Fin 1)) (entry (eye machine (snd (shape ?F))) 0 0)"
    by (rule entry_smul) (simp_all add: wf_eye shape_eye sh_F)
  finally have "entry ?S 0 0 = Float64 PInf"
    by (simp add: G00 entry_eye sh_F mult_machine addition_machine float_one_machine
        alpha_1e308_def overflow_def)
  then have S00: "data ?S ! 0 ! 0 = Float64 PInf"
    by (simp add: entry_def)
  have wfS: "wf_ndarray ?S"
    by (rule wf_add)
  have shS: "shape ?S = (14, 14)"
    by (simp add: shape_add shape_smul sh_G)
  have len: "length (data ?S) = 14"
    using wfS shS by (simp add: wf_ndarray_def)
  have len0: "length (data ?S ! 0) = 14"
    using wfS shS len by (simp add: wf_ndarray_def list_all_length)
  have "\<not> list_all (list_all isfinite) (data ?S)"
  proof
    assume "list_all (list_all isfinite) (data ?S)"
    then have "list_all isfinite (data ?S ! 0)"
      using len by (simp add: list_all_length)
    then have "isfinite (data ?S ! 0 ! 0)"
      using len0 by (simp add: list_all_length)
    then show False
      using S00 by simp
  qed
  then have raises: "pinv_checked p ?S = Inl (ValueError ''array must not contain infs or NaNs'')"
    by (simp add: pinv_checked_def)
  have d0: "dot machine ?L ?F = Inr ?FC"
    by (simp add: dot_def sh_L sh_F)
  have d1: "dot machine (ndarray_T ?F) ?FC = Inr ?G"
    by (simp add: dot_def sh_FT shape_matmul sh_L sh_F)
  show ?thesis
    unfolding inverse_model_def
    by (simp add: fm sc bindE_def Let_def Matrix_def d0 d1 raises)
qed

end
